theory Spec2Isabelle
  imports Complex_Main "HOL-Library.AList"
begin

section \<open>JavaScript values\<close>

text \<open>
  The service of \<^verbatim>\<open>apiService.js\<close> works on dynamically typed values: parsed JSON bodies,
  object literals, arrays. A value is one of the following; an object is the list of its own
  properties in insertion order (a property name occurs once in an object, lookup takes the
  first entry). Numbers are reals: no claim depends on the rounding of doubles.
  Strings are lists of code units in the 8-bit range.
\<close>

datatype jsval =
    JUndefined
  | JNull
  | JBool bool
  | JNum real
  | JStr string
  | JArr "jsval list"
  | JObj "(string \<times> jsval) list"

text \<open>
  A thrown value: the four kinds of exception the modelled code paths can meet. The
  message of a TypeError that the engine raises differs between engines; the texts used
  here stand for it, and no statement below depends on the wording.
\<close>

datatype js_error = Error string | TypeError string | SyntaxError string | RangeError string

fun message :: "js_error \<Rightarrow> string" where
  "message (Error m) = m"
| "message (TypeError m) = m"
| "message (SyntaxError m) = m"
| "message (RangeError m) = m"

text \<open>ToBoolean: what \<^verbatim>\<open>!x\<close>, \<^verbatim>\<open>x || y\<close>, \<^verbatim>\<open>x && y\<close> and \<^verbatim>\<open>if (x)\<close> test. An empty array is truthy.\<close>

fun truthy :: "jsval \<Rightarrow> bool" where
  "truthy JUndefined = False"
| "truthy JNull = False"
| "truthy (JBool b) = b"
| "truthy (JNum r) = (r \<noteq> 0)"
| "truthy (JStr s) = (s \<noteq> [])"
| "truthy (JArr xs) = True"
| "truthy (JObj kvs) = True"

fun nullish :: "jsval \<Rightarrow> bool" where
  "nullish JUndefined = True"
| "nullish JNull = True"
| "nullish v = False"

fun isArray :: "jsval \<Rightarrow> bool" where
  "isArray (JArr xs) = True"
| "isArray v = False"

text \<open>Decimal rendering of a non-negative integer, as a template literal prints it.\<close>

definition digit_char :: "nat \<Rightarrow> char" where
  "digit_char d = char_of (48 + d)"

fun show_nat :: "nat \<Rightarrow> string" where
  "show_nat n = (if n < 10 then [digit_char n] else show_nat (n div 10) @ [digit_char (n mod 10)])"

declare show_nat.simps [simp del]

definition show_int :: "int \<Rightarrow> string" where
  "show_int i = (if i < 0 then CHR ''-'' # show_nat (nat (- i)) else show_nat (nat i))"

text \<open>
  The text of a number in a template literal. An integer of magnitude below \<open>10^21\<close> is
  printed as its decimal digits; for any other number (a fraction, or a magnitude printed
  with an exponent) the text is the engine's, given by \<open>render\<close>.
\<close>

definition number_text :: "(real \<Rightarrow> string) \<Rightarrow> real \<Rightarrow> string" where
  "number_text render r =
     (if r = real_of_int \<lfloor>r\<rfloor> \<and> \<bar>r\<bar> < 10 ^ 21 then show_int \<lfloor>r\<rfloor> else render r)"

text \<open>
  ToLength, which \<^verbatim>\<open>Array.from\<close> applies to the \<^verbatim>\<open>length\<close> of an array-like: the number
  is truncated, a negative one is 0, and the result is at most \<open>2^53 - 1\<close>.
\<close>

definition to_length :: "real \<Rightarrow> nat" where
  "to_length r = (if r \<le> 0 then 0 else nat (min \<lfloor>r\<rfloor> (2 ^ 53 - 1)))"

text \<open>
  Property read \<^verbatim>\<open>v.k\<close> on a value that is neither \<^verbatim>\<open>null\<close> nor \<^verbatim>\<open>undefined\<close>
  (on those the read raises a TypeError: each caller below tests \<open>nullish\<close> first, or
  uses optional chaining).
\<close>

fun get_prop :: "jsval \<Rightarrow> string \<Rightarrow> jsval" where
  "get_prop (JObj kvs) k = (case map_of kvs k of None \<Rightarrow> JUndefined | Some v \<Rightarrow> v)"
| "get_prop (JArr xs) k =
     (if k = ''length'' then JNum (real (length xs))
      else (case filter (\<lambda>i. show_nat i = k) [0..<length xs] of
              [] \<Rightarrow> JUndefined | i # _ \<Rightarrow> xs ! i))"
| "get_prop (JStr s) k =
     (if k = ''length'' then JNum (real (length s))
      else (case filter (\<lambda>i. show_nat i = k) [0..<length s] of
              [] \<Rightarrow> JUndefined | i # _ \<Rightarrow> JStr [s ! i]))"
| "get_prop v k = JUndefined"

text \<open>Optional chaining \<^verbatim>\<open>v?.k\<close>.\<close>

definition opt_prop :: "jsval \<Rightarrow> string \<Rightarrow> jsval" where
  "opt_prop v k = (if nullish v then JUndefined else get_prop v k)"

text \<open>The own enumerable properties that a spread \<^verbatim>\<open>{...v}\<close> copies.\<close>

fun own_props :: "jsval \<Rightarrow> (string \<times> jsval) list" where
  "own_props (JObj kvs) = kvs"
| "own_props (JArr xs) = zip (map show_nat [0..<length xs]) xs"
| "own_props (JStr s) = zip (map show_nat [0..<length s]) (map (\<lambda>c. JStr [c]) s)"
| "own_props v = []"

text \<open>\<^verbatim>\<open>a || b\<close> on values.\<close>

definition js_or :: "jsval \<Rightarrow> jsval \<Rightarrow> jsval" where
  "js_or a b = (if truthy a then a else b)"

text \<open>Indexing an array literal with a computed index; out of range is \<^verbatim>\<open>undefined\<close>.\<close>

definition pick :: "string list \<Rightarrow> nat \<Rightarrow> jsval" where
  "pick xs i = (if i < length xs then JStr (xs ! i) else JUndefined)"

text \<open>
  \<^verbatim>\<open>String.prototype.trim\<close>: the white space and line terminator code units of the
  8-bit range are tab, line feed, vertical tab, form feed, carriage return, space and
  no-break space.
\<close>

definition is_space :: "char \<Rightarrow> bool" where
  "is_space c = (of_char c \<in> {9, 10, 11, 12, 13, 32, 160 :: nat})"

definition trim :: "string \<Rightarrow> string" where
  "trim s = rev (dropWhile is_space (rev (dropWhile is_space s)))"

text \<open>
  \<^verbatim>\<open>xs.map(f)\<close> where \<open>f\<close> may raise: the elements are visited in order and the first
  exception ends the loop. The callback gets the position, so that two calls on equal
  elements may differ (the callback reads the clock and \<^verbatim>\<open>Math.random\<close>).
\<close>

fun map_raising :: "(nat \<Rightarrow> jsval \<Rightarrow> js_error + jsval) \<Rightarrow> nat \<Rightarrow> jsval list \<Rightarrow> js_error + jsval list" where
  "map_raising f i [] = Inr []"
| "map_raising f i (x # xs) =
     (case f i x of
        Inl err \<Rightarrow> Inl err
      | Inr y \<Rightarrow> (case map_raising f (Suc i) xs of Inl err \<Rightarrow> Inl err | Inr ys \<Rightarrow> Inr (y # ys)))"


section \<open>The service object\<close>

record cache_entry =
  data :: jsval
  timestamp :: int

text \<open>A WebSocket as the browser holds it: its \<^verbatim>\<open>readyState\<close> and the two callbacks that
  the handlers installed by \<^verbatim>\<open>connectWebSocket\<close> closed over. A callback is named by a
  number; \<open>None\<close> is a call without that callback.\<close>

datatype ready_state = CONNECTING | OPEN | CLOSING | CLOSED

type_synonym callback = "nat option"

record socket =
  readyState :: ready_state
  onMessage :: callback
  onConnectionChange :: callback

text \<open>A timer set by \<^verbatim>\<open>setTimeout\<close>: its delay in milliseconds, the callbacks its closure
  holds, and whether it has run.\<close>

record timer =
  delay :: nat
  timer_onMessage :: callback
  timer_onConnectionChange :: callback
  fired :: bool

text \<open>
  The fields set by the constructor of \<^verbatim>\<open>MusicAPIService\<close> (\<open>ws\<close> is the index of the
  socket it refers to, \<open>None\<close> for \<^verbatim>\<open>null\<close>), followed by the part of the browser
  that the methods act on: every socket created so far, every timer set so far, and the
  calls made to the callbacks, in order.
\<close>

record service =
  ws :: "nat option"
  wsConnected :: bool
  reconnectAttempts :: nat
  maxReconnectAttempts :: nat
  cache :: "string \<rightharpoonup> cache_entry"
  cacheTimeout :: int
  sockets :: "socket list"
  timers :: "timer list"
  status_calls :: "(nat \<times> bool) list"
  message_calls :: "(nat \<times> jsval) list"

definition new_service :: service where
  "new_service =
     \<lparr> ws = None, wsConnected = False, reconnectAttempts = 0, maxReconnectAttempts = 5,
       cache = Map.empty, cacheTimeout = 30000,
       sockets = [], timers = [], status_calls = [], message_calls = [] \<rparr>"


section \<open>HTTP operations\<close>

text \<open>
  What \<^verbatim>\<open>fetch\<close> does is the environment's choice: the promise is rejected, or it
  resolves to a response with a status whose \<^verbatim>\<open>json()\<close> either raises or yields a
  value. \<^verbatim>\<open>response.ok\<close> is a status from 200 to 299. The requests a call issues are
  returned with its result. A call of an \<^verbatim>\<open>async\<close> method is one step, from the
  service before it to the service after it: two calls in flight at once are not
  represented. A result \<open>Inl\<close> is a rejected promise, \<open>Inr\<close> a fulfilled one.
\<close>

datatype http_reply = Rejected js_error | Response nat "js_error + jsval"

definition response_ok :: "nat \<Rightarrow> bool" where
  "response_ok status = (200 \<le> status \<and> status \<le> 299)"

datatype request = TrendingRequest real | AnalyticsRequest | SearchRequest string real

text \<open>
  The environment of one call: the readings of \<^verbatim>\<open>Date.now()\<close> at the cache test, in
  the result, in the cache entry and in the fallback payload; the reply to the request;
  the value of \<^verbatim>\<open>Math.floor(Math.random() * n)\<close> at each draw (\<open>floor_random e k n\<close> for
  the \<open>k\<close>-th draw: the product is a rounded double, so it is not computed here from a
  real); and the outcome of \<^verbatim>\<open>enhanceTrackData\<close> on the track at each position (it
  reads the clock and \<^verbatim>\<open>Math.random\<close>, and raises a TypeError on a track that is
  \<^verbatim>\<open>null\<close> or has a non-string \<^verbatim>\<open>image\<close> or \<^verbatim>\<open>language\<close>).
\<close>

record env =
  t_check :: int
  reply :: http_reply
  t_result :: int
  t_store :: int
  t_fallback :: int
  floor_random :: "nat \<Rightarrow> nat \<Rightarrow> nat"
  enhanceTrackData :: "nat \<Rightarrow> jsval \<Rightarrow> js_error + jsval"

definition isCacheValid :: "service \<Rightarrow> string \<Rightarrow> int \<Rightarrow> bool" where
  "isCacheValid s key now =
     (case cache s key of
        None \<Rightarrow> False
      | Some cached \<Rightarrow> now - timestamp cached < cacheTimeout s)"

definition fallback_track :: "(nat \<Rightarrow> nat \<Rightarrow> nat) \<Rightarrow> nat \<Rightarrow> jsval" where
  "fallback_track rnd i =
     JObj [(''track_id'', JStr (''fallback_'' @ show_nat i)),
           (''track_name'', JStr (''Trending Song '' @ show_nat (i + 1))),
           (''artist'', JStr (''Popular Artist '' @ show_nat (i + 1))),
           (''album'', JStr (''Hit Album '' @ show_nat (i + 1))),
           (''popularity'', JNum (real (rnd (4 * i) 100))),
           (''play_count'', JNum (real (rnd (4 * i + 1) 1000000))),
           (''language'', pick [''hindi'', ''punjabi'', ''tamil'', ''telugu'']
                              (rnd (4 * i + 2) 4)),
           (''genre'', pick [''bollywood'', ''punjabi'', ''south_indian'', ''trending'']
                           (rnd (4 * i + 3) 4)),
           (''image_url'', JStr ''https://via.placeholder.com/500x500/1a1a1a/666666?text=Music''),
           (''preview_url'', JNull),
           (''is_trending'', JBool True),
           (''source'', JStr ''fallback'')]"

text \<open>
  \<^verbatim>\<open>getFallbackTrendingData(limit)\<close>. \<^verbatim>\<open>Array.from({ length: limit }, f)\<close> makes an
  array of \<open>to_length limit\<close> elements; an array cannot be longer than \<open>2^32 - 1\<close>, and
  a greater length raises a RangeError.
\<close>

definition getFallbackTrendingData ::
    "(nat \<Rightarrow> nat \<Rightarrow> nat) \<Rightarrow> int \<Rightarrow> real \<Rightarrow> js_error + jsval" where
  "getFallbackTrendingData rnd now limit =
     (if 2 ^ 32 - 1 < to_length limit then Inl (RangeError ''Invalid array length'')
      else Inr (JObj [(''success'', JBool True),
                      (''tracks'', JArr (map (fallback_track rnd) [0..<to_length limit])),
                      (''metadata'', JObj [(''total'', JNum limit),
                                          (''source'', JStr ''fallback''),
                                          (''timestamp'', JNum (real_of_int now))])]))"

definition getFallbackAnalytics :: jsval where
  "getFallbackAnalytics =
     JObj [(''market_overview'',
              JObj [(''total_tracks_analyzed'', JNum 50),
                    (''unique_artists'', JNum 25),
                    (''total_plays'', JNum 15000000),
                    (''avg_popularity_score'', JNum 75.5)]),
           (''content_distribution'',
              JObj [(''by_language'',
                       JObj [(''hindi'', JNum 25), (''punjabi'', JNum 8), (''tamil'', JNum 7),
                             (''telugu'', JNum 6), (''malayalam'', JNum 4)]),
                    (''by_genre'',
                       JObj [(''bollywood'', JNum 30), (''punjabi'', JNum 8),
                             (''south_indian'', JNum 12), (''trending'', JNum 10),
                             (''regional'', JNum 5)])]),
           (''source'', JStr ''fallback'')]"

text \<open>The \<^verbatim>\<open>try\<close> block of \<^verbatim>\<open>getTrendingTracks\<close> up to the value of \<^verbatim>\<open>result\<close>.\<close>

definition trending_attempt :: "env \<Rightarrow> js_error + jsval" where
  "trending_attempt e =
     (case reply e of
        Rejected err \<Rightarrow> Inl err
      | Response status body \<Rightarrow>
          if \<not> response_ok status
          then Inl (Error (''API responded with status: '' @ show_nat status))
          else (case body of
                  Inl err \<Rightarrow> Inl err
                | Inr d \<Rightarrow>
                    if nullish d then Inl (TypeError ''Cannot read properties of null'')
                    else if \<not> truthy (get_prop d ''success'') \<or> \<not> truthy (get_prop d ''tracks'')
                            \<or> \<not> isArray (get_prop d ''tracks'')
                    then Inl (Error ''Invalid trending data format'')
                    else (case get_prop d ''tracks'' of
                            JArr tracks \<Rightarrow>
                              (case map_raising (enhanceTrackData e) 0 tracks of
                                 Inl err \<Rightarrow> Inl err
                               | Inr enhancedTracks \<Rightarrow>
                                   Inr (JObj (AList.update ''source'' (JStr ''api'')
                                          (AList.update ''timestamp'' (JNum (real_of_int (t_result e)))
                                            (AList.update ''tracks'' (JArr enhancedTracks)
                                              (own_props d))))))
                          | _ \<Rightarrow> Inl (TypeError ''data.tracks.map is not a function''))))"

text \<open>
  \<^verbatim>\<open>getTrendingTracks(limit)\<close>, on a limit that is a number (a call without argument has
  25). What \<^verbatim>\<open>getFallbackTrendingData\<close> raises in the \<^verbatim>\<open>catch\<close> block is raised to
  the caller.
\<close>

definition getTrendingTracks ::
    "(real \<Rightarrow> string) \<Rightarrow> service \<Rightarrow> env \<Rightarrow> real \<Rightarrow> (js_error + jsval) \<times> service \<times> request list" where
  "getTrendingTracks render s e limit =
     (let cacheKey = ''trending_'' @ number_text render limit in
      if isCacheValid s cacheKey (t_check e)
      then (case cache s cacheKey of
              Some cached \<Rightarrow> (Inr (data cached), s, [])
            | None \<Rightarrow> (Inl (TypeError ''Cannot read properties of undefined''), s, []))
      else (case trending_attempt e of
              Inr result \<Rightarrow>
                (Inr result,
                 s\<lparr>cache := (cache s)(cacheKey \<mapsto> \<lparr>data = result, timestamp = t_store e\<rparr>)\<rparr>,
                 [TrendingRequest limit])
            | Inl err \<Rightarrow>
                (getFallbackTrendingData (floor_random e) (t_fallback e) limit, s,
                 [TrendingRequest limit])))"

text \<open>The \<^verbatim>\<open>try\<close> block of \<^verbatim>\<open>getAnalytics\<close> up to the value of \<^verbatim>\<open>data\<close>.\<close>

definition analytics_attempt :: "env \<Rightarrow> js_error + jsval" where
  "analytics_attempt e =
     (case reply e of
        Rejected err \<Rightarrow> Inl err
      | Response status body \<Rightarrow>
          if \<not> response_ok status
          then Inl (Error (''Analytics API error: '' @ show_nat status))
          else body)"

definition getAnalytics :: "service \<Rightarrow> env \<Rightarrow> (js_error + jsval) \<times> service \<times> request list" where
  "getAnalytics s e =
     (let cacheKey = ''analytics'' in
      if isCacheValid s cacheKey (t_check e)
      then (case cache s cacheKey of
              Some cached \<Rightarrow> (Inr (data cached), s, [])
            | None \<Rightarrow> (Inl (TypeError ''Cannot read properties of undefined''), s, []))
      else (case analytics_attempt e of
              Inr d \<Rightarrow>
                (Inr d,
                 s\<lparr>cache := (cache s)(cacheKey \<mapsto> \<lparr>data = d, timestamp = t_store e\<rparr>)\<rparr>,
                 [AnalyticsRequest])
            | Inl err \<Rightarrow> (Inr getFallbackAnalytics, s, [AnalyticsRequest])))"

text \<open>The \<^verbatim>\<open>try\<close> block of \<^verbatim>\<open>searchTracks\<close>; it does not look at the status.\<close>

definition search_attempt :: "env \<Rightarrow> string \<Rightarrow> js_error + jsval" where
  "search_attempt e query =
     (case reply e of
        Rejected err \<Rightarrow> Inl err
      | Response status body \<Rightarrow>
          (case body of
             Inl err \<Rightarrow> Inl err
           | Inr d \<Rightarrow>
               if nullish d then Inl (TypeError ''Cannot read properties of null'')
               else if truthy (get_prop d ''success'') \<and> truthy (get_prop d ''tracks'')
               then (case get_prop d ''tracks'' of
                       JArr tracks \<Rightarrow>
                         (case map_raising (enhanceTrackData e) 0 tracks of
                            Inl err \<Rightarrow> Inl err
                          | Inr enhanced \<Rightarrow>
                              Inr (JObj [(''tracks'', JArr enhanced),
                                         (''total'', js_or (opt_prop (get_prop d ''metadata'') ''total'')
                                                          (JNum (real (length tracks)))),
                                         (''query'', JStr query)]))
                     | _ \<Rightarrow> Inl (TypeError ''data.tracks.map is not a function''))
               else Inr (JObj [(''tracks'', JArr []), (''total'', JNum 0), (''query'', JStr query)])))"

text \<open>
  \<^verbatim>\<open>searchTracks(query, limit)\<close>, on a query that is any value and a limit that is a
  number. The test \<^verbatim>\<open>!query || query.trim().length < 2\<close> stands before the \<^verbatim>\<open>try\<close>:
  a falsy query ends the call; a truthy one that is not a string has no \<^verbatim>\<open>trim\<close>
  method, and the TypeError of the call is raised to the caller.
\<close>

definition searchTracks ::
    "service \<Rightarrow> env \<Rightarrow> jsval \<Rightarrow> real \<Rightarrow> (js_error + jsval) \<times> service \<times> request list" where
  "searchTracks s e query limit =
     (if \<not> truthy query
      then (Inr (JObj [(''tracks'', JArr []), (''total'', JNum 0)]), s, [])
      else (case query of
              JStr q \<Rightarrow>
                if length (trim q) < 2
                then (Inr (JObj [(''tracks'', JArr []), (''total'', JNum 0)]), s, [])
                else (case search_attempt e q of
                        Inr result \<Rightarrow> (Inr result, s, [SearchRequest q limit])
                      | Inl err \<Rightarrow>
                          (Inr (JObj [(''tracks'', JArr []), (''total'', JNum 0),
                                      (''error'', JStr (message err))]),
                           s, [SearchRequest q limit]))
            | _ \<Rightarrow> (Inl (TypeError ''query.trim is not a function''), s, [])))"


section \<open>The live feed\<close>

text \<open>
  \<^verbatim>\<open>connectWebSocket(onMessage, onConnectionChange)\<close>. The flag \<open>constructed\<close> says
  whether \<^verbatim>\<open>new WebSocket(this.wsURL)\<close> returns; when it raises, the \<^verbatim>\<open>catch\<close> logs and
  nothing is assigned.
\<close>

definition connectWebSocket :: "callback \<Rightarrow> callback \<Rightarrow> bool \<Rightarrow> service \<Rightarrow> service" where
  "connectWebSocket onMsg onConn constructed s =
     (if (case ws s of
            None \<Rightarrow> False
          | Some i \<Rightarrow> i < length (sockets s) \<and> readyState (sockets s ! i) = OPEN)
      then s
      else if \<not> constructed then s
      else s\<lparr>ws := Some (length (sockets s)),
             sockets := sockets s @
               [\<lparr>readyState = CONNECTING, onMessage = onMsg, onConnectionChange = onConn\<rparr>]\<rparr>)"

text \<open>A call \<^verbatim>\<open>if (cb) cb(x)\<close> of the status callback, recorded.\<close>

definition notify :: "callback \<Rightarrow> bool \<Rightarrow> (nat \<times> bool) list" where
  "notify cb up = (case cb of None \<Rightarrow> [] | Some c \<Rightarrow> [(c, up)])"

text \<open>\<^verbatim>\<open>this.ws.onopen\<close>.\<close>

definition ws_onopen :: "callback \<Rightarrow> service \<Rightarrow> service" where
  "ws_onopen onConn s =
     s\<lparr>wsConnected := True, reconnectAttempts := 0,
       status_calls := status_calls s @ notify onConn True\<rparr>"

text \<open>
  \<^verbatim>\<open>this.ws.onmessage\<close>: the argument that \<^verbatim>\<open>onMessage\<close> is called with, if it is
  called. The frame is given by what \<^verbatim>\<open>JSON.parse(event.data)\<close> does with it; a parse
  error, and the TypeError of \<^verbatim>\<open>data.type\<close> on \<^verbatim>\<open>null\<close>, are caught and logged.
\<close>

definition dispatched :: "callback \<Rightarrow> js_error + jsval \<Rightarrow> (nat \<times> jsval) option" where
  "dispatched onMsg frame =
     (case frame of
        Inl err \<Rightarrow> None
      | Inr d \<Rightarrow>
          if nullish d then None
          else (case onMsg of None \<Rightarrow> None | Some c \<Rightarrow> Some (c, d)))"

definition ws_onmessage :: "callback \<Rightarrow> js_error + jsval \<Rightarrow> service \<Rightarrow> service" where
  "ws_onmessage onMsg frame s =
     (case dispatched onMsg frame of
        None \<Rightarrow> s
      | Some call \<Rightarrow> s\<lparr>message_calls := message_calls s @ [call]\<rparr>)"

text \<open>
  \<^verbatim>\<open>this.ws.onclose\<close>. The delay \<^verbatim>\<open>3000 * this.reconnectAttempts\<close> is an argument of
  \<^verbatim>\<open>setTimeout\<close>: it is computed when the timer is set, before the timer's callback
  increments the counter.
\<close>

definition ws_onclose :: "callback \<Rightarrow> callback \<Rightarrow> service \<Rightarrow> service" where
  "ws_onclose onMsg onConn s =
     (let s1 = s\<lparr>wsConnected := False, status_calls := status_calls s @ notify onConn False\<rparr>
      in if reconnectAttempts s1 < maxReconnectAttempts s1
         then s1\<lparr>timers := timers s1 @
                   [\<lparr>delay = 3000 * reconnectAttempts s1, timer_onMessage = onMsg,
                     timer_onConnectionChange = onConn, fired = False\<rparr>]\<rparr>
         else s1)"

text \<open>The function passed to \<^verbatim>\<open>setTimeout\<close>.\<close>

definition reconnect_timeout :: "callback \<Rightarrow> callback \<Rightarrow> bool \<Rightarrow> service \<Rightarrow> service" where
  "reconnect_timeout onMsg onConn constructed s =
     connectWebSocket onMsg onConn constructed (s\<lparr>reconnectAttempts := reconnectAttempts s + 1\<rparr>)"

text \<open>\<^verbatim>\<open>WebSocket.close()\<close>: a socket that is connecting or open starts closing.\<close>

definition close_socket :: "socket \<Rightarrow> socket" where
  "close_socket k =
     (if readyState k = CONNECTING \<or> readyState k = OPEN then k\<lparr>readyState := CLOSING\<rparr> else k)"

definition disconnectWebSocket :: "service \<Rightarrow> service" where
  "disconnectWebSocket s =
     (case ws s of
        None \<Rightarrow> s
      | Some i \<Rightarrow>
          s\<lparr>sockets := (if i < length (sockets s)
                         then (sockets s)[i := close_socket (sockets s ! i)] else sockets s),
            ws := None, wsConnected := False\<rparr>)"

text \<open>
  What can happen to the service: its caller calls one of the two methods, or the browser
  runs a handler. The browser opens only a connecting socket, delivers frames only on an
  open one, closes a socket once, and runs a timer once.
\<close>

datatype event =
    CallConnect callback callback bool
  | CallDisconnect
  | SocketOpens nat
  | SocketReceives nat "js_error + jsval"
  | SocketErrors nat
  | SocketCloses nat
  | TimerFires nat bool

fun step :: "event \<Rightarrow> service \<Rightarrow> service" where
  "step (CallConnect onMsg onConn constructed) s = connectWebSocket onMsg onConn constructed s"
| "step CallDisconnect s = disconnectWebSocket s"
| "step (SocketOpens i) s =
     (if i < length (sockets s) \<and> readyState (sockets s ! i) = CONNECTING
      then ws_onopen (onConnectionChange (sockets s ! i))
             (s\<lparr>sockets := (sockets s)[i := (sockets s ! i)\<lparr>readyState := OPEN\<rparr>]\<rparr>)
      else s)"
| "step (SocketReceives i frame) s =
     (if i < length (sockets s) \<and> readyState (sockets s ! i) = OPEN
      then ws_onmessage (onMessage (sockets s ! i)) frame s
      else s)"
| "step (SocketErrors i) s = s"
| "step (SocketCloses i) s =
     (if i < length (sockets s) \<and> readyState (sockets s ! i) \<noteq> CLOSED
      then ws_onclose (onMessage (sockets s ! i)) (onConnectionChange (sockets s ! i))
             (s\<lparr>sockets := (sockets s)[i := (sockets s ! i)\<lparr>readyState := CLOSED\<rparr>]\<rparr>)
      else s)"
| "step (TimerFires k constructed) s =
     (if k < length (timers s) \<and> \<not> fired (timers s ! k)
      then reconnect_timeout (timer_onMessage (timers s ! k)) (timer_onConnectionChange (timers s ! k))
             constructed (s\<lparr>timers := (timers s)[k := (timers s ! k)\<lparr>fired := True\<rparr>]\<rparr>)
      else s)"

fun run :: "event list \<Rightarrow> service \<Rightarrow> service" where
  "run [] s = s"
| "run (ev # evs) s = run evs (step ev s)"

text \<open>The socket that \<^verbatim>\<open>this.ws\<close> refers to closes.\<close>

definition close_current :: "service \<Rightarrow> service" where
  "close_current s = (case ws s of None \<Rightarrow> s | Some i \<Rightarrow> step (SocketCloses i) s)"

text \<open>One failed attempt: the current socket closes without having opened since, and the
  timer which that close has set, if it has set one, runs and constructs the next socket.\<close>

definition fail_once :: "service \<Rightarrow> service" where
  "fail_once s = step (TimerFires (length (timers s)) True) (close_current s)"

text \<open>The current socket exists and the browser has not closed it.\<close>

definition live :: "service \<Rightarrow> bool" where
  "live s = (case ws s of
               None \<Rightarrow> False
             | Some i \<Rightarrow> i < length (sockets s) \<and> readyState (sockets s ! i) \<noteq> CLOSED)"


text \<open>The socket that \<^verbatim>\<open>this.ws\<close> refers to.\<close>

definition current_socket :: "service \<Rightarrow> socket option" where
  "current_socket s =
     (case ws s of
        None \<Rightarrow> None
      | Some i \<Rightarrow> if i < length (sockets s) then Some (sockets s ! i) else None)"

text \<open>The socket that \<^verbatim>\<open>this.ws\<close> refers to opens.\<close>

definition open_current :: "service \<Rightarrow> service" where
  "open_current s = (case ws s of None \<Rightarrow> s | Some i \<Rightarrow> step (SocketOpens i) s)"

fun is_open :: "event \<Rightarrow> bool" where
  "is_open (SocketOpens i) = True"
| "is_open ev = False"


section \<open>The dashboard's callbacks\<close>

text \<open>
  The two closures that \<^verbatim>\<open>Dashboard\<close> passes to \<^verbatim>\<open>connectWebSocket\<close>, on the part of
  the component's state that holds the tracks and the connection indicator
  (\<^verbatim>\<open>liveMetrics\<close>, \<^verbatim>\<open>lastUpdate\<close> and \<^verbatim>\<open>debugInfo\<close> are left out). \<open>stamp\<close> is
  \<^verbatim>\<open>new Date().toISOString()\<close>.
\<close>

record dashboard =
  mounted :: bool
  trendingData :: jsval
  dash_wsConnected :: bool
  connectionStatus :: string

definition dashboard_onMessage :: "string \<Rightarrow> jsval \<Rightarrow> dashboard \<Rightarrow> dashboard" where
  "dashboard_onMessage stamp msg d =
     (if \<not> mounted d then d
      else if get_prop msg ''type'' = JStr ''trending_update'' \<and> truthy (get_prop msg ''data'')
      then d\<lparr>trendingData :=
               JObj (AList.update ''metadata''
                       (JObj (AList.update ''source'' (JStr ''websocket'')
                                (AList.update ''last_update'' (JStr stamp)
                                   (own_props (opt_prop (trendingData d) ''metadata'')))))
                       (AList.update ''tracks'' (get_prop msg ''data'')
                          (own_props (trendingData d))))\<rparr>
      else d)"

definition dashboard_onConnectionChange :: "bool \<Rightarrow> dashboard \<Rightarrow> dashboard" where
  "dashboard_onConnectionChange up d =
     (if \<not> mounted d then d
      else d\<lparr>dash_wsConnected := up,
             connectionStatus := (if up then ''connected'' else ''disconnected'')\<rparr>)"

text \<open>
  A frame arrives on socket \<open>i\<close> of the service. The browser delivers it when that socket
  is open; \<^verbatim>\<open>ws.onmessage\<close> then calls the callback that the socket's handlers hold, and
  the dashboard reacts when that callback is its closure, named \<open>cb\<close>.
\<close>

definition deliver ::
    "nat \<Rightarrow> string \<Rightarrow> nat \<Rightarrow> js_error + jsval \<Rightarrow> service \<Rightarrow> dashboard \<Rightarrow> dashboard" where
  "deliver cb stamp i frame s d =
     (if i < length (sockets s) \<and> readyState (sockets s ! i) = OPEN
      then (case dispatched (onMessage (sockets s ! i)) frame of
              None \<Rightarrow> d
            | Some (c, msg) \<Rightarrow> if c = cb then dashboard_onMessage stamp msg d else d)
      else d)"


section \<open>Sample inputs\<close>

text \<open>Concrete environments and bodies, on which the theorems below are instantiated.\<close>

definition sample_random :: "nat \<Rightarrow> nat \<Rightarrow> nat" where
  "sample_random k n = 0"

definition sample_render :: "real \<Rightarrow> string" where
  "sample_render r = ''2.5''"

definition sample_enhance :: "nat \<Rightarrow> jsval \<Rightarrow> js_error + jsval" where
  "sample_enhance i t = Inr t"

definition sample_env :: "int \<Rightarrow> http_reply \<Rightarrow> env" where
  "sample_env now r =
     \<lparr>t_check = now, reply = r, t_result = now + 1, t_store = now + 2, t_fallback = now + 3,
      floor_random = sample_random, enhanceTrackData = sample_enhance\<rparr>"

definition sample_live :: service where
  "sample_live = connectWebSocket (Some 0) (Some 1) True new_service"

definition sample_open :: service where
  "sample_open = open_current sample_live"

definition sample_dashboard :: dashboard where
  "sample_dashboard =
     \<lparr>mounted = True, trendingData = JNull, dash_wsConnected = False,
      connectionStatus = ''connecting''\<rparr>"

definition sample_update :: jsval where
  "sample_update =
     JObj [(''type'', JStr ''trending_update''),
           (''data'', JArr [JObj [(''track_id'', JStr ''a'')], JObj [(''track_id'', JStr ''b'')]])]"

definition sample_after_cleanup :: service where
  "sample_after_cleanup =
     run [CallDisconnect, SocketCloses 0, TimerFires 0 True, SocketOpens 1] sample_open"

definition sample_unmounted :: dashboard where
  "sample_unmounted =
     \<lparr>mounted = False, trendingData = JObj [(''tracks'', JArr [JObj [(''track_id'', JStr ''old'')]])],
      dash_wsConnected = False, connectionStatus = ''disconnected''\<rparr>"

definition sample_heartbeat :: jsval where
  "sample_heartbeat = JObj [(''type'', JStr ''heartbeat''), (''data'', JArr [])]"

definition empty_trending_body :: jsval where
  "empty_trending_body = JObj [(''success'', JBool True), (''tracks'', JArr [])]"

definition empty_trending_result :: jsval where
  "empty_trending_result =
     JObj [(''success'', JBool True), (''tracks'', JArr []),
           (''timestamp'', JNum 1001), (''source'', JStr ''api'')]"

definition bare_analytics_body :: jsval where
  "bare_analytics_body = JObj [(''market_overview'', JObj [])]"

definition failure_body :: jsval where
  "failure_body = JObj [(''success'', JBool False)]"


section \<open>The fallback payload\<close>

lemma fallback_track_source: "get_prop (fallback_track rnd i) ''source'' = JStr ''fallback''"
  by (simp add: fallback_track_def)

lemma trending_attempt_not_ok:
  "reply e = Response status body \<Longrightarrow> \<not> response_ok status \<Longrightarrow> \<exists>err. trending_attempt e = Inl err"
  by (simp add: trending_attempt_def)

lemma to_length_nat: "n < 2 ^ 32 \<Longrightarrow> to_length (real n) = n"
  by (simp add: to_length_def min_def)

lemma to_length_bound: "limit < 2 ^ 32 \<Longrightarrow> to_length limit \<le> 2 ^ 32 - 1"
proof -
  assume a: "limit < 2 ^ 32"
  show ?thesis
  proof (cases "limit \<le> 0")
    case True
    then show ?thesis by (simp add: to_length_def)
  next
    case False
    from a have "\<lfloor>limit\<rfloor> < 4294967296"
      using floor_less_iff [of limit 4294967296] by simp
    then have "nat (min \<lfloor>limit\<rfloor> (2 ^ 53 - 1)) \<le> 4294967295" by linarith
    with False show ?thesis by (simp add: to_length_def)
  qed
qed

lemma fallback_returns:
  "limit < 2 ^ 32 \<Longrightarrow>
     getFallbackTrendingData rnd now limit =
       Inr (JObj [(''success'', JBool True),
                  (''tracks'', JArr (map (fallback_track rnd) [0..<to_length limit])),
                  (''metadata'', JObj [(''total'', JNum limit),
                                      (''source'', JStr ''fallback''),
                                      (''timestamp'', JNum (real_of_int now))])])"
  using to_length_bound [of limit] by (simp add: getFallbackTrendingData_def)

lemma new_service_miss: "\<not> isCacheValid new_service key now"
  by (simp add: isCacheValid_def new_service_def)

lemma sample_failed_call:
  "fst (getTrendingTracks sample_render new_service
          (sample_env 1000 (Response 500 (Inl (SyntaxError ''Unexpected token'')))) limit)
     = getFallbackTrendingData sample_random 1003 limit"
  by (simp add: getTrendingTracks_def trending_attempt_def response_ok_def sample_env_def
        new_service_miss)

text \<open>
  Counterexample to C6. The trending endpoint answers 500 to a fresh service. With the
  limit \<open>2^32\<close> the fallback array cannot be made: the RangeError is raised in the
  \<^verbatim>\<open>catch\<close> block and reaches the caller. With the limit \<open>-1\<close> the fallback payload has
  no track, and with \<open>2.5\<close> it has two: the length is not the limit.
\<close>

theorem trending_fallback_length_counterexample:
  "fst (getTrendingTracks sample_render new_service
          (sample_env 1000 (Response 500 (Inl (SyntaxError ''Unexpected token'')))) 4294967296)
     = Inl (RangeError ''Invalid array length'')
   \<and> fst (getTrendingTracks sample_render new_service
            (sample_env 1000 (Response 500 (Inl (SyntaxError ''Unexpected token'')))) (- 1))
       = Inr (JObj [(''success'', JBool True), (''tracks'', JArr []),
                    (''metadata'', JObj [(''total'', JNum (- 1)), (''source'', JStr ''fallback''),
                                        (''timestamp'', JNum 1003)])])
   \<and> fst (getTrendingTracks sample_render new_service
            (sample_env 1000 (Response 500 (Inl (SyntaxError ''Unexpected token'')))) 2.5)
       = Inr (JObj [(''success'', JBool True),
                    (''tracks'', JArr [fallback_track sample_random 0, fallback_track sample_random 1]),
                    (''metadata'', JObj [(''total'', JNum 2.5), (''source'', JStr ''fallback''),
                                        (''timestamp'', JNum 1003)])])"
proof -
  have big: "to_length 4294967296 = 4294967296"
    by (simp add: to_length_def)
  have neg: "to_length (- 1) = 0"
    by (simp add: to_length_def)
  have frac: "to_length (5 / 2) = 2"
    by (simp add: to_length_def)
  have two: "[0..<2] = [0, Suc 0]" by (simp add: upt_rec)
  show ?thesis
    unfolding sample_failed_call
    by (simp add: getFallbackTrendingData_def big neg frac two)
qed

text \<open>
  C6, amended. For every limit that is an integer from 0 to \<open>2^32 - 1\<close>, a length an array
  can have: when the cache has no fresh entry for the key, so that the request is issued,
  and the trending endpoint answers with a status outside 200..299 (a 500, say), then
  \<open>getTrendingTracks\<close> returns normally (\<open>Inr\<close>: nothing is raised to the caller) a
  payload whose \<open>tracks\<close> array has exactly \<open>limit\<close> elements, each with \<open>source\<close>
  equal to \<open>fallback\<close>.
\<close>

theorem trending_non_2xx_fallback:
  assumes bound: "n < 2 ^ 32"
    and miss: "\<not> isCacheValid s (''trending_'' @ number_text render (real n)) (t_check e)"
    and rep: "reply e = Response status body"
    and bad: "\<not> response_ok status"
  shows "\<exists>payload ts.
           fst (getTrendingTracks render s e (real n)) = Inr payload \<and>
           get_prop payload ''tracks'' = JArr ts \<and>
           length ts = n \<and>
           (\<forall>t \<in> set ts. get_prop t ''source'' = JStr ''fallback'')"
proof -
  from rep bad obtain err where att: "trending_attempt e = Inl err"
    using trending_attempt_not_ok by blast
  let ?ts = "map (fallback_track (floor_random e)) [0..<n]"
  let ?p = "JObj [(''success'', JBool True), (''tracks'', JArr ?ts),
                  (''metadata'', JObj [(''total'', JNum (real n)),
                                      (''source'', JStr ''fallback''),
                                      (''timestamp'', JNum (real_of_int (t_fallback e)))])]"
  from bound have "real n < 2 ^ 32" by (metis of_nat_less_iff of_nat_numeral of_nat_power)
  then have "getFallbackTrendingData (floor_random e) (t_fallback e) (real n) = Inr ?p"
    using fallback_returns [of "real n"] to_length_nat [OF bound] by simp
  then have r: "fst (getTrendingTracks render s e (real n)) = Inr ?p"
    using miss att by (simp add: getTrendingTracks_def Let_def)
  have t: "get_prop ?p ''tracks'' = JArr ?ts" by simp
  have l: "length ?ts = n" by simp
  have a: "\<forall>t \<in> set ?ts. get_prop t ''source'' = JStr ''fallback''"
    by (auto simp: fallback_track_source)
  from r t l a show ?thesis by blast
qed

theorem trending_non_2xx_fallback_witness:
  "\<exists>payload ts.
     fst (getTrendingTracks sample_render new_service
            (sample_env 1000 (Response 500 (Inl (SyntaxError ''Unexpected token'')))) 3)
       = Inr payload \<and>
     get_prop payload ''tracks'' = JArr ts \<and> length ts = 3 \<and>
     (\<forall>t \<in> set ts. get_prop t ''source'' = JStr ''fallback'')"
  using trending_non_2xx_fallback [of 3 new_service sample_render
            "sample_env 1000 (Response 500 (Inl (SyntaxError ''Unexpected token'')))"
            500 "Inl (SyntaxError ''Unexpected token'')"]
  by (simp add: new_service_miss response_ok_def sample_env_def)


section \<open>The cache\<close>

lemma show_nat_25: "show_nat 25 = ''25''"
  by code_simp

lemma number_text_25: "number_text render 25 = ''25''"
  by (simp add: number_text_def show_int_def show_nat_25)

lemma isCacheValid_stored:
  "isCacheValid (s\<lparr>cache := (cache s)(key \<mapsto> \<lparr>data = r, timestamp = t\<rparr>)\<rparr>) key now
     \<longleftrightarrow> now - t < cacheTimeout s"
  by (simp add: isCacheValid_def)

lemma trending_second_call:
  assumes "cache s1 (''trending_'' @ number_text render limit) = Some entry"
  shows "(t_check e2 - timestamp entry < cacheTimeout s1 \<longrightarrow>
            getTrendingTracks render s1 e2 limit = (Inr (data entry), s1, []))
       \<and> (cacheTimeout s1 \<le> t_check e2 - timestamp entry \<longrightarrow>
            snd (snd (getTrendingTracks render s1 e2 limit)) = [TrendingRequest limit])"
  using assms
  by (auto simp: getTrendingTracks_def isCacheValid_def Let_def split: sum.splits)

lemma analytics_second_call:
  assumes "cache s1 ''analytics'' = Some entry"
  shows "(t_check e2 - timestamp entry < cacheTimeout s1 \<longrightarrow>
            getAnalytics s1 e2 = (Inr (data entry), s1, []))
       \<and> (cacheTimeout s1 \<le> t_check e2 - timestamp entry \<longrightarrow>
            snd (snd (getAnalytics s1 e2)) = [AnalyticsRequest])"
  using assms
  by (auto simp: getAnalytics_def isCacheValid_def Let_def split: sum.splits)

text \<open>
  C1. A call that finds no fresh entry and whose request succeeds returns the payload \<open>r\<close>,
  issues one request and stores \<open>r\<close> with the clock reading \<open>t_store\<close>. From then on the
  entry is valid at \<open>now\<close> exactly when \<open>now - t_store < 30000\<close>. A second call for the
  same key whose clock reading is less than 30000 ms after the stored one returns the same
  \<open>r\<close>, leaves the service as it is and issues no request; one made 30000 ms or more
  later issues a request. This holds for \<open>getTrendingTracks\<close> with any limit and for
  \<open>getAnalytics\<close>.
\<close>

theorem fetch_twice_within_ttl:
  assumes ttl: "cacheTimeout s = 30000"
  shows "(\<not> isCacheValid s (''trending_'' @ number_text render limit) (t_check e1) \<and>
          trending_attempt e1 = Inr r \<longrightarrow>
            (\<exists>s1. getTrendingTracks render s e1 limit = (Inr r, s1, [TrendingRequest limit]) \<and>
                  (\<forall>now. isCacheValid s1 (''trending_'' @ number_text render limit) now
                           \<longleftrightarrow> now - t_store e1 < 30000) \<and>
                  (t_check e2 - t_store e1 < 30000 \<longrightarrow>
                     getTrendingTracks render s1 e2 limit = (Inr r, s1, [])) \<and>
                  (30000 \<le> t_check e2 - t_store e1 \<longrightarrow>
                     snd (snd (getTrendingTracks render s1 e2 limit)) = [TrendingRequest limit])))
       \<and> (\<not> isCacheValid s ''analytics'' (t_check e1) \<and> analytics_attempt e1 = Inr r \<longrightarrow>
            (\<exists>s1. getAnalytics s e1 = (Inr r, s1, [AnalyticsRequest]) \<and>
                  (\<forall>now. isCacheValid s1 ''analytics'' now \<longleftrightarrow> now - t_store e1 < 30000) \<and>
                  (t_check e2 - t_store e1 < 30000 \<longrightarrow>
                     getAnalytics s1 e2 = (Inr r, s1, [])) \<and>
                  (30000 \<le> t_check e2 - t_store e1 \<longrightarrow>
                     snd (snd (getAnalytics s1 e2)) = [AnalyticsRequest])))"
proof (intro conjI impI)
  let ?k = "''trending_'' @ number_text render limit"
  let ?s1 = "s\<lparr>cache := (cache s)(?k \<mapsto> \<lparr>data = r, timestamp = t_store e1\<rparr>)\<rparr>"
  assume a: "\<not> isCacheValid s ?k (t_check e1) \<and> trending_attempt e1 = Inr r"
  then have first: "getTrendingTracks render s e1 limit = (Inr r, ?s1, [TrendingRequest limit])"
    by (simp add: getTrendingTracks_def Let_def)
  have valid: "\<forall>now. isCacheValid ?s1 ?k now \<longleftrightarrow> now - t_store e1 < 30000"
    using ttl by (simp add: isCacheValid_stored)
  have stored: "cache ?s1 ?k = Some \<lparr>data = r, timestamp = t_store e1\<rparr>" by simp
  have second: "(t_check e2 - t_store e1 < 30000 \<longrightarrow>
                     getTrendingTracks render ?s1 e2 limit = (Inr r, ?s1, [])) \<and>
                (30000 \<le> t_check e2 - t_store e1 \<longrightarrow>
                     snd (snd (getTrendingTracks render ?s1 e2 limit)) = [TrendingRequest limit])"
    using trending_second_call [OF stored, of e2] ttl by simp
  from first valid second
  show "\<exists>s1. getTrendingTracks render s e1 limit = (Inr r, s1, [TrendingRequest limit]) \<and>
                  (\<forall>now. isCacheValid s1 ?k now \<longleftrightarrow> now - t_store e1 < 30000) \<and>
                  (t_check e2 - t_store e1 < 30000 \<longrightarrow>
                     getTrendingTracks render s1 e2 limit = (Inr r, s1, [])) \<and>
                  (30000 \<le> t_check e2 - t_store e1 \<longrightarrow>
                     snd (snd (getTrendingTracks render s1 e2 limit)) = [TrendingRequest limit])"
    by blast
next
  let ?k = "''analytics''"
  let ?s1 = "s\<lparr>cache := (cache s)(?k \<mapsto> \<lparr>data = r, timestamp = t_store e1\<rparr>)\<rparr>"
  assume a: "\<not> isCacheValid s ?k (t_check e1) \<and> analytics_attempt e1 = Inr r"
  then have first: "getAnalytics s e1 = (Inr r, ?s1, [AnalyticsRequest])"
    by (simp add: getAnalytics_def Let_def)
  have valid: "\<forall>now. isCacheValid ?s1 ?k now \<longleftrightarrow> now - t_store e1 < 30000"
    using ttl by (simp add: isCacheValid_stored)
  have stored: "cache ?s1 ?k = Some \<lparr>data = r, timestamp = t_store e1\<rparr>" by simp
  have second: "(t_check e2 - t_store e1 < 30000 \<longrightarrow>
                     getAnalytics ?s1 e2 = (Inr r, ?s1, [])) \<and>
                (30000 \<le> t_check e2 - t_store e1 \<longrightarrow>
                     snd (snd (getAnalytics ?s1 e2)) = [AnalyticsRequest])"
    using analytics_second_call [OF stored, of e2] ttl by simp
  from first valid second
  show "\<exists>s1. getAnalytics s e1 = (Inr r, s1, [AnalyticsRequest]) \<and>
                  (\<forall>now. isCacheValid s1 ?k now \<longleftrightarrow> now - t_store e1 < 30000) \<and>
                  (t_check e2 - t_store e1 < 30000 \<longrightarrow>
                     getAnalytics s1 e2 = (Inr r, s1, [])) \<and>
                  (30000 \<le> t_check e2 - t_store e1 \<longrightarrow>
                     snd (snd (getAnalytics s1 e2)) = [AnalyticsRequest])"
    by blast
qed

lemma sample_attempt:
  "trending_attempt (sample_env 1000 (Response 200 (Inr empty_trending_body))) = Inr empty_trending_result"
  by (simp add: trending_attempt_def sample_env_def response_ok_def empty_trending_body_def
        empty_trending_result_def)

theorem fetch_twice_within_ttl_witness:
  "(\<exists>s1. getTrendingTracks sample_render new_service (sample_env 1000 (Response 200 (Inr empty_trending_body))) 25
            = (Inr empty_trending_result, s1, [TrendingRequest 25]) \<and>
          getTrendingTracks sample_render s1 (sample_env 31001 (Rejected (TypeError ''Failed to fetch''))) 25
            = (Inr empty_trending_result, s1, []))
   \<and> (\<exists>s1. getTrendingTracks sample_render new_service (sample_env 1000 (Response 200 (Inr empty_trending_body))) 25
            = (Inr empty_trending_result, s1, [TrendingRequest 25]) \<and>
          snd (snd (getTrendingTracks sample_render s1 (sample_env 31002 (Rejected (TypeError ''Failed to fetch''))) 25))
            = [TrendingRequest 25])
   \<and> (\<exists>s1. getAnalytics new_service (sample_env 1000 (Response 200 (Inr getFallbackAnalytics)))
            = (Inr getFallbackAnalytics, s1, [AnalyticsRequest]) \<and>
          getAnalytics s1 (sample_env 31001 (Rejected (TypeError ''Failed to fetch'')))
            = (Inr getFallbackAnalytics, s1, []))"
proof -
  let ?e1 = "sample_env 1000 (Response 200 (Inr empty_trending_body))"
  let ?a1 = "sample_env 1000 (Response 200 (Inr getFallbackAnalytics))"
  let ?e2 = "sample_env 31001 (Rejected (TypeError ''Failed to fetch''))"
  let ?e3 = "sample_env 31002 (Rejected (TypeError ''Failed to fetch''))"
  have ttl: "cacheTimeout new_service = 30000" by (simp add: new_service_def)
  have t1: "t_store ?e1 = 1002" "t_store ?a1 = 1002" "t_check ?e2 = 31001" "t_check ?e3 = 31002"
    by (simp_all add: sample_env_def)
  have an: "analytics_attempt ?a1 = Inr getFallbackAnalytics"
    by (simp add: analytics_attempt_def sample_env_def response_ok_def)
  have miss1: "\<not> isCacheValid new_service (''trending_'' @ number_text sample_render 25) (t_check ?e1)"
    and miss2: "\<not> isCacheValid new_service ''analytics'' (t_check ?a1)"
    by (rule new_service_miss)+
  have lt: "t_check ?e2 - t_store ?e1 < 30000" "t_check ?e2 - t_store ?a1 < 30000"
    and ge: "30000 \<le> t_check ?e3 - t_store ?e1"
    by (simp_all add: t1)
  have c1: "\<exists>s1. getTrendingTracks sample_render new_service ?e1 25
                    = (Inr empty_trending_result, s1, [TrendingRequest 25]) \<and>
                 getTrendingTracks sample_render s1 ?e2 25 = (Inr empty_trending_result, s1, [])"
    using fetch_twice_within_ttl [OF ttl, where render = sample_render and limit = 25
                                    and ?e1.0 = ?e1 and r = empty_trending_result and ?e2.0 = ?e2]
          miss1 sample_attempt lt(1)
    by blast
  have c2: "\<exists>s1. getTrendingTracks sample_render new_service ?e1 25
                    = (Inr empty_trending_result, s1, [TrendingRequest 25]) \<and>
                 snd (snd (getTrendingTracks sample_render s1 ?e3 25)) = [TrendingRequest 25]"
    using fetch_twice_within_ttl [OF ttl, where render = sample_render and limit = 25
                                    and ?e1.0 = ?e1 and r = empty_trending_result and ?e2.0 = ?e3]
          miss1 sample_attempt ge
    by blast
  have c3: "\<exists>s1. getAnalytics new_service ?a1 = (Inr getFallbackAnalytics, s1, [AnalyticsRequest]) \<and>
                 getAnalytics s1 ?e2 = (Inr getFallbackAnalytics, s1, [])"
    using fetch_twice_within_ttl [OF ttl, where render = sample_render and limit = 25
                                    and ?e1.0 = ?a1 and r = getFallbackAnalytics and ?e2.0 = ?e2]
          miss2 an lt(2)
    by blast
  from c1 c2 c3 show ?thesis by blast
qed

section \<open>Validation of the trending response\<close>

text \<open>
  Counterexample to C2. On a fresh service, a 200 reply whose body is
  \<^verbatim>\<open>{success: true, tracks: []}\<close> passes the check of \<open>getTrendingTracks\<close>: the result
  is that body with \<open>timestamp\<close> and \<open>source: 'api'\<close> added, not the fallback payload, and
  it is stored in the cache under \<open>trending_25\<close>.
\<close>

theorem trending_empty_list_counterexample:
  "fst (getTrendingTracks sample_render new_service (sample_env 1000 (Response 200 (Inr empty_trending_body))) 25)
     = Inr empty_trending_result
   \<and> Inr empty_trending_result \<noteq> getFallbackTrendingData sample_random 1003 25
   \<and> get_prop empty_trending_result ''tracks'' = JArr []
   \<and> cache (fst (snd (getTrendingTracks sample_render new_service
                         (sample_env 1000 (Response 200 (Inr empty_trending_body))) 25)))
        ''trending_25''
     = Some \<lparr>data = empty_trending_result, timestamp = 1002\<rparr>"
  by (simp add: getTrendingTracks_def trending_attempt_def isCacheValid_def new_service_def
        response_ok_def number_text_25 sample_env_def empty_trending_body_def
        empty_trending_result_def getFallbackTrendingData_def)

text \<open>
  C2, amended. \<open>getTrendingTracks\<close> validates the structure of a 2xx body, not that the list
  has elements. When the request is issued and the reply is 2xx with a JSON body \<open>d\<close>:
  if \<open>success\<close> is truthy and \<open>tracks\<close> is the empty array, the call returns the body with
  \<open>tracks = []\<close> and \<open>source = 'api'\<close> and caches it; if \<open>d\<close> is \<^verbatim>\<open>null\<close>, or \<open>success\<close>
  is falsy, or \<open>tracks\<close> is not an array, and the limit is below \<open>2^32\<close>, the call
  returns the fallback payload and leaves the cache as it is.
\<close>

theorem trending_validation:
  assumes miss: "\<not> isCacheValid s (''trending_'' @ number_text render limit) (t_check e)"
    and rep: "reply e = Response status (Inr d)"
    and ok: "response_ok status"
  shows "(truthy (get_prop d ''success'') \<and> get_prop d ''tracks'' = JArr [] \<longrightarrow>
            (\<exists>result.
               getTrendingTracks render s e limit =
                 (Inr result,
                  s\<lparr>cache := (cache s)(''trending_'' @ number_text render limit \<mapsto>
                               \<lparr>data = result, timestamp = t_store e\<rparr>)\<rparr>,
                  [TrendingRequest limit]) \<and>
               get_prop result ''tracks'' = JArr [] \<and>
               get_prop result ''source'' = JStr ''api''))
       \<and> ((nullish d \<or> \<not> truthy (get_prop d ''success'') \<or> \<not> isArray (get_prop d ''tracks''))
            \<and> limit < 2 ^ 32 \<longrightarrow>
            (\<exists>payload.
               getFallbackTrendingData (floor_random e) (t_fallback e) limit = Inr payload \<and>
               getTrendingTracks render s e limit = (Inr payload, s, [TrendingRequest limit])))"
proof (intro conjI impI)
  assume a: "truthy (get_prop d ''success'') \<and> get_prop d ''tracks'' = JArr []"
  then have nn: "\<not> nullish d" by (cases d) auto
  let ?r = "JObj (AList.update ''source'' (JStr ''api'')
                   (AList.update ''timestamp'' (JNum (real_of_int (t_result e)))
                     (AList.update ''tracks'' (JArr []) (own_props d))))"
  have att: "trending_attempt e = Inr ?r"
    using rep ok a nn by (simp add: trending_attempt_def)
  have call: "getTrendingTracks render s e limit =
                 (Inr ?r,
                  s\<lparr>cache := (cache s)(''trending_'' @ number_text render limit \<mapsto>
                               \<lparr>data = ?r, timestamp = t_store e\<rparr>)\<rparr>,
                  [TrendingRequest limit])"
    using miss att by (simp add: getTrendingTracks_def Let_def)
  have t: "get_prop ?r ''tracks'' = JArr []"
    by (simp add: update_conv')
  have src: "get_prop ?r ''source'' = JStr ''api''"
    by (simp add: update_conv')
  from call t src show "\<exists>result.
               getTrendingTracks render s e limit =
                 (Inr result,
                  s\<lparr>cache := (cache s)(''trending_'' @ number_text render limit \<mapsto>
                               \<lparr>data = result, timestamp = t_store e\<rparr>)\<rparr>,
                  [TrendingRequest limit]) \<and>
               get_prop result ''tracks'' = JArr [] \<and>
               get_prop result ''source'' = JStr ''api''"
    by blast
next
  assume b: "(nullish d \<or> \<not> truthy (get_prop d ''success'') \<or> \<not> isArray (get_prop d ''tracks''))
            \<and> limit < 2 ^ 32"
  have "\<exists>err. trending_attempt e = Inl err"
    using rep ok b by (auto simp: trending_attempt_def)
  then have call: "getTrendingTracks render s e limit =
              (getFallbackTrendingData (floor_random e) (t_fallback e) limit, s,
               [TrendingRequest limit])"
    using miss by (auto simp: getTrendingTracks_def Let_def)
  from b obtain payload
    where p: "getFallbackTrendingData (floor_random e) (t_fallback e) limit = Inr payload"
    using fallback_returns [of limit] by blast
  from call p show "\<exists>payload.
               getFallbackTrendingData (floor_random e) (t_fallback e) limit = Inr payload \<and>
               getTrendingTracks render s e limit = (Inr payload, s, [TrendingRequest limit])"
    by simp
qed

theorem trending_validation_witness:
  "(\<exists>result.
      getTrendingTracks sample_render new_service (sample_env 1000 (Response 200 (Inr empty_trending_body))) 25 =
        (Inr result,
         new_service\<lparr>cache := (cache new_service)(''trending_'' @ number_text sample_render 25 \<mapsto>
                      \<lparr>data = result, timestamp = 1002\<rparr>)\<rparr>,
         [TrendingRequest 25]) \<and>
      get_prop result ''tracks'' = JArr [] \<and>
      get_prop result ''source'' = JStr ''api'')
   \<and> getTrendingTracks sample_render new_service (sample_env 1000 (Response 200 (Inr failure_body))) 25 =
        (getFallbackTrendingData sample_random 1003 25, new_service, [TrendingRequest 25])
   \<and> (\<exists>payload. getFallbackTrendingData sample_random 1003 25 = Inr payload)"
proof -
  let ?e = "sample_env 1000 (Response 200 (Inr empty_trending_body))"
  let ?f = "sample_env 1000 (Response 200 (Inr failure_body))"
  have ok: "response_ok 200" by (simp add: response_ok_def)
  have miss: "\<not> isCacheValid new_service (''trending_'' @ number_text sample_render 25) (t_check ?e)"
    and miss': "\<not> isCacheValid new_service (''trending_'' @ number_text sample_render 25) (t_check ?f)"
    by (rule new_service_miss)+
  have rep: "reply ?e = Response 200 (Inr empty_trending_body)"
    and rep': "reply ?f = Response 200 (Inr failure_body)"
    by (simp_all add: sample_env_def)
  have good: "truthy (get_prop empty_trending_body ''success'') \<and>
              get_prop empty_trending_body ''tracks'' = JArr []"
    by (simp add: empty_trending_body_def)
  have bad: "nullish failure_body \<or> \<not> truthy (get_prop failure_body ''success'') \<or>
             \<not> isArray (get_prop failure_body ''tracks'')"
    by (simp add: failure_body_def)
  have env: "t_store ?e = 1002" "floor_random ?f = sample_random" "t_fallback ?f = 1003"
    by (simp_all add: sample_env_def)
  have lim: "(25 :: real) < 2 ^ 32" by simp
  show ?thesis
    using trending_validation [OF miss rep ok] trending_validation [OF miss' rep' ok]
          good bad lim
    unfolding env by force
qed


section \<open>The analytics response\<close>

text \<open>
  Counterexample to C3. On a fresh service, a 200 reply whose body is
  \<^verbatim>\<open>{market_overview: {}}\<close>, without \<open>content_distribution\<close>, is returned as it is and
  stored in the cache; it is not the fallback payload.
\<close>

theorem analytics_unvalidated_counterexample:
  "fst (getAnalytics new_service (sample_env 1000 (Response 200 (Inr bare_analytics_body))))
     = Inr bare_analytics_body
   \<and> get_prop bare_analytics_body ''content_distribution'' = JUndefined
   \<and> bare_analytics_body \<noteq> getFallbackAnalytics
   \<and> cache (fst (snd (getAnalytics new_service
                         (sample_env 1000 (Response 200 (Inr bare_analytics_body))))))
        ''analytics''
     = Some \<lparr>data = bare_analytics_body, timestamp = 1002\<rparr>"
  by (simp add: getAnalytics_def analytics_attempt_def isCacheValid_def new_service_def
        response_ok_def getFallbackAnalytics_def sample_env_def bare_analytics_body_def)

text \<open>
  C3, amended. \<open>getAnalytics\<close> does not inspect the body. When the request is issued, every
  2xx reply with a JSON body \<open>d\<close> is cached and returned as it is, with or without a
  \<open>content_distribution\<close> field; the fallback analytics payload is returned, and nothing
  is cached, when the request is rejected, the status is outside 200..299, or the body is
  not JSON.
\<close>

theorem analytics_body_unvalidated:
  assumes miss: "\<not> isCacheValid s ''analytics'' (t_check e)"
  shows "(reply e = Response status (Inr d) \<and> response_ok status \<longrightarrow>
            getAnalytics s e =
              (Inr d,
               s\<lparr>cache := (cache s)(''analytics'' \<mapsto> \<lparr>data = d, timestamp = t_store e\<rparr>)\<rparr>,
               [AnalyticsRequest]))
       \<and> (reply e = Rejected err \<or>
           (\<exists>st b. reply e = Response st b \<and> (\<not> response_ok st \<or> b = Inl err)) \<longrightarrow>
            getAnalytics s e = (Inr getFallbackAnalytics, s, [AnalyticsRequest]))"
  using miss by (auto simp: getAnalytics_def analytics_attempt_def Let_def)

theorem analytics_body_unvalidated_witness:
  "getAnalytics new_service (sample_env 1000 (Response 200 (Inr bare_analytics_body))) =
     (Inr bare_analytics_body,
      new_service\<lparr>cache := (cache new_service)(''analytics'' \<mapsto>
                   \<lparr>data = bare_analytics_body, timestamp = 1002\<rparr>)\<rparr>,
      [AnalyticsRequest])
   \<and> getAnalytics new_service (sample_env 1000 (Response 500 (Inr bare_analytics_body))) =
       (Inr getFallbackAnalytics, new_service, [AnalyticsRequest])"
proof -
  let ?e = "sample_env 1000 (Response 200 (Inr bare_analytics_body))"
  let ?f = "sample_env 1000 (Response 500 (Inr bare_analytics_body))"
  have miss: "\<not> isCacheValid new_service ''analytics'' (t_check ?e)"
    and miss': "\<not> isCacheValid new_service ''analytics'' (t_check ?f)"
    by (rule new_service_miss)+
  have rep: "reply ?e = Response 200 (Inr bare_analytics_body) \<and> response_ok 200"
    by (simp add: sample_env_def response_ok_def)
  have rep': "\<exists>st b. reply ?f = Response st b \<and> (\<not> response_ok st \<or> b = Inl (Error ''''))"
    by (simp add: sample_env_def response_ok_def)
  have env: "t_store ?e = 1002" by (simp add: sample_env_def)
  show ?thesis
    using analytics_body_unvalidated [OF miss, of 200 bare_analytics_body]
          analytics_body_unvalidated [OF miss', of _ _ "Error ''''"] rep rep'
    unfolding env by blast
qed


section \<open>Search\<close>

lemma search_never_raises: "\<exists>r. fst (searchTracks s e (JStr q) limit) = Inr r"
  by (simp add: searchTracks_def split: sum.splits)

lemma long_query_truthy: "2 \<le> length (trim q) \<Longrightarrow> truthy (JStr q)"
  by (auto simp: trim_def)

lemma search_long_query:
  assumes "2 \<le> length (trim q)"
  shows "searchTracks s e (JStr q) limit =
           (case search_attempt e q of
              Inr result \<Rightarrow> (Inr result, s, [SearchRequest q limit])
            | Inl err \<Rightarrow>
                (Inr (JObj [(''tracks'', JArr []), (''total'', JNum 0),
                            (''error'', JStr (message err))]),
                 s, [SearchRequest q limit]))"
  using assms long_query_truthy [OF assms] by (simp add: searchTracks_def)

text \<open>
  Counterexample to C9. The query \<open>ab\<close> is long enough for a request; the reply is a 200
  whose body \<^verbatim>\<open>{success: false}\<close> reports a failure. The result is the empty result with
  a \<open>query\<close> field: it has no \<open>error\<close> field. And a query that is not a string, the
  number 5, makes the call raise: \<^verbatim>\<open>query.trim\<close> is not a function, outside the
  \<^verbatim>\<open>try\<close>.
\<close>

theorem search_failure_counterexample:
  "fst (searchTracks new_service (sample_env 1000 (Response 200 (Inr failure_body))) (JStr ''ab'') 20)
     = Inr (JObj [(''tracks'', JArr []), (''total'', JNum 0), (''query'', JStr ''ab'')])
   \<and> get_prop (JObj [(''tracks'', JArr []), (''total'', JNum 0), (''query'', JStr ''ab'')]) ''error''
       = JUndefined
   \<and> fst (searchTracks new_service (sample_env 1000 (Response 200 (Inr failure_body))) (JNum 5) 20)
       = Inl (TypeError ''query.trim is not a function'')"
  by (simp add: searchTracks_def search_attempt_def sample_env_def trim_def is_space_def
        failure_body_def)

text \<open>
  C9, amended. For every query string whose trimmed length is under 2, \<open>searchTracks\<close>
  returns \<^verbatim>\<open>{tracks: [], total: 0}\<close> and issues no request. For every query string it
  returns normally. For a query string of trimmed length 2 or more and a reply of any
  status: when the request is rejected or the body is not JSON, the result is the empty
  result with an \<open>error\<close> field holding the message; when the body is \<^verbatim>\<open>null\<close>, the
  result is the empty result with an \<open>error\<close> field; when the body is another value that
  lacks a truthy \<open>success\<close> or a truthy \<open>tracks\<close>, the result is the empty result with
  the \<open>query\<close> field and no \<open>error\<close> field.
\<close>

theorem search_short_or_failed:
  "(length (trim q) < 2 \<longrightarrow>
      searchTracks s e (JStr q) limit =
        (Inr (JObj [(''tracks'', JArr []), (''total'', JNum 0)]), s, []))
   \<and> (\<exists>r. fst (searchTracks s e (JStr q) limit) = Inr r)
   \<and> (2 \<le> length (trim q) \<and>
       (reply e = Rejected err \<or> (\<exists>st. reply e = Response st (Inl err))) \<longrightarrow>
      searchTracks s e (JStr q) limit =
        (Inr (JObj [(''tracks'', JArr []), (''total'', JNum 0), (''error'', JStr (message err))]),
         s, [SearchRequest q limit]))
   \<and> (2 \<le> length (trim q) \<and> reply e = Response st (Inr d) \<and> nullish d \<longrightarrow>
      (\<exists>m. searchTracks s e (JStr q) limit =
        (Inr (JObj [(''tracks'', JArr []), (''total'', JNum 0), (''error'', JStr m)]),
         s, [SearchRequest q limit])))
   \<and> (2 \<le> length (trim q) \<and> reply e = Response st (Inr d) \<and> \<not> nullish d \<and>
       \<not> (truthy (get_prop d ''success'') \<and> truthy (get_prop d ''tracks'')) \<longrightarrow>
      searchTracks s e (JStr q) limit =
        (Inr (JObj [(''tracks'', JArr []), (''total'', JNum 0), (''query'', JStr q)]),
         s, [SearchRequest q limit]))"
proof (intro conjI impI)
  assume "length (trim q) < 2"
  then show "searchTracks s e (JStr q) limit =
        (Inr (JObj [(''tracks'', JArr []), (''total'', JNum 0)]), s, [])"
    by (simp add: searchTracks_def)
next
  show "\<exists>r. fst (searchTracks s e (JStr q) limit) = Inr r"
    by (rule search_never_raises)
next
  assume a: "2 \<le> length (trim q) \<and>
       (reply e = Rejected err \<or> (\<exists>st. reply e = Response st (Inl err)))"
  then have "search_attempt e q = Inl err"
    by (auto simp: search_attempt_def)
  with a show "searchTracks s e (JStr q) limit =
        (Inr (JObj [(''tracks'', JArr []), (''total'', JNum 0), (''error'', JStr (message err))]),
         s, [SearchRequest q limit])"
    by (simp add: search_long_query)
next
  assume a: "2 \<le> length (trim q) \<and> reply e = Response st (Inr d) \<and> nullish d"
  then have "\<exists>err. search_attempt e q = Inl err"
    by (simp add: search_attempt_def)
  with a show "\<exists>m. searchTracks s e (JStr q) limit =
        (Inr (JObj [(''tracks'', JArr []), (''total'', JNum 0), (''error'', JStr m)]),
         s, [SearchRequest q limit])"
    by (auto simp: search_long_query)
next
  assume a: "2 \<le> length (trim q) \<and> reply e = Response st (Inr d) \<and> \<not> nullish d \<and>
       \<not> (truthy (get_prop d ''success'') \<and> truthy (get_prop d ''tracks''))"
  then have "search_attempt e q =
      Inr (JObj [(''tracks'', JArr []), (''total'', JNum 0), (''query'', JStr q)])"
    by (auto simp: search_attempt_def)
  with a show "searchTracks s e (JStr q) limit =
        (Inr (JObj [(''tracks'', JArr []), (''total'', JNum 0), (''query'', JStr q)]),
         s, [SearchRequest q limit])"
    by (simp add: search_long_query)
qed

theorem search_short_or_failed_witness:
  "searchTracks new_service (sample_env 1000 (Rejected (TypeError ''Failed to fetch'')))
       (JStr '' a '') 20 =
     (Inr (JObj [(''tracks'', JArr []), (''total'', JNum 0)]), new_service, [])
   \<and> searchTracks new_service (sample_env 1000 (Rejected (TypeError ''Failed to fetch'')))
         (JStr ''ab'') 20 =
       (Inr (JObj [(''tracks'', JArr []), (''total'', JNum 0),
                   (''error'', JStr ''Failed to fetch'')]),
        new_service, [SearchRequest ''ab'' 20])
   \<and> (\<exists>m. searchTracks new_service (sample_env 1000 (Response 200 (Inr JNull))) (JStr ''ab'') 20 =
       (Inr (JObj [(''tracks'', JArr []), (''total'', JNum 0), (''error'', JStr m)]),
        new_service, [SearchRequest ''ab'' 20]))
   \<and> searchTracks new_service (sample_env 1000 (Response 500 (Inr failure_body))) (JStr ''ab'') 20 =
       (Inr (JObj [(''tracks'', JArr []), (''total'', JNum 0), (''query'', JStr ''ab'')]),
        new_service, [SearchRequest ''ab'' 20])"
proof -
  let ?e = "sample_env 1000 (Rejected (TypeError ''Failed to fetch''))"
  let ?n = "sample_env 1000 (Response 200 (Inr JNull))"
  let ?f = "sample_env 1000 (Response 500 (Inr failure_body))"
  have short: "length (trim '' a '') < 2" and long: "2 \<le> length (trim ''ab'')"
    by (simp_all add: trim_def is_space_def)
  have rej: "reply ?e = Rejected (TypeError ''Failed to fetch'')"
    by (simp add: sample_env_def)
  have null: "reply ?n = Response 200 (Inr JNull) \<and> nullish JNull"
    by (simp add: sample_env_def)
  have shape: "reply ?f = Response 500 (Inr failure_body) \<and>
       \<not> nullish failure_body \<and>
       \<not> (truthy (get_prop failure_body ''success'') \<and>
          truthy (get_prop failure_body ''tracks''))"
    by (simp add: sample_env_def failure_body_def)
  have m: "message (TypeError ''Failed to fetch'') = ''Failed to fetch''" by simp
  have c1: "searchTracks new_service ?e (JStr '' a '') 20 =
     (Inr (JObj [(''tracks'', JArr []), (''total'', JNum 0)]), new_service, [])"
    using search_short_or_failed [where q = "'' a ''" and s = new_service and e = ?e
                                    and limit = 20] short
    by blast
  have c2: "searchTracks new_service ?e (JStr ''ab'') 20 =
       (Inr (JObj [(''tracks'', JArr []), (''total'', JNum 0),
                   (''error'', JStr ''Failed to fetch'')]),
        new_service, [SearchRequest ''ab'' 20])"
    using search_short_or_failed [where q = "''ab''" and s = new_service and e = ?e
                                    and limit = 20 and err = "TypeError ''Failed to fetch''"]
          long rej
    unfolding m by blast
  have c3: "\<exists>m. searchTracks new_service ?n (JStr ''ab'') 20 =
       (Inr (JObj [(''tracks'', JArr []), (''total'', JNum 0), (''error'', JStr m)]),
        new_service, [SearchRequest ''ab'' 20])"
    using search_short_or_failed [where q = "''ab''" and s = new_service and e = ?n
                                    and limit = 20 and st = 200 and d = JNull]
          long null
    by blast
  have c4: "searchTracks new_service ?f (JStr ''ab'') 20 =
       (Inr (JObj [(''tracks'', JArr []), (''total'', JNum 0), (''query'', JStr ''ab'')]),
        new_service, [SearchRequest ''ab'' 20])"
    using search_short_or_failed [where q = "''ab''" and s = new_service and e = ?f
                                    and limit = 20 and st = 500 and d = failure_body]
          long shape
    by blast
  from c1 c2 c3 c4 show ?thesis by blast
qed


section \<open>The reconnect loop\<close>

lemma live_iff: "live s \<longleftrightarrow> (\<exists>k. current_socket s = Some k \<and> readyState k \<noteq> CLOSED)"
  by (auto simp: live_def current_socket_def split: option.splits)

lemma close_current_fields:
  assumes "live s" and "current_socket s = Some k"
  shows "reconnectAttempts (close_current s) = reconnectAttempts s"
    and "maxReconnectAttempts (close_current s) = maxReconnectAttempts s"
    and "wsConnected (close_current s) = False"
    and "ws (close_current s) = ws s"
    and "cache (close_current s) = cache s"
    and "length (sockets (close_current s)) = length (sockets s)"
    and "current_socket (close_current s) = Some (k\<lparr>readyState := CLOSED\<rparr>)"
    and "status_calls (close_current s) = status_calls s @ notify (onConnectionChange k) False"
    and "timers (close_current s) =
           (if reconnectAttempts s < maxReconnectAttempts s
            then timers s @ [\<lparr>delay = 3000 * reconnectAttempts s, timer_onMessage = onMessage k,
                               timer_onConnectionChange = onConnectionChange k, fired = False\<rparr>]
            else timers s)"
  using assms
  by (auto simp: live_def current_socket_def close_current_def ws_onclose_def Let_def
           split: option.splits if_splits)

lemma fail_once_fields:
  assumes "live s" and "current_socket s = Some k"
    and "reconnectAttempts s < maxReconnectAttempts s"
  shows "reconnectAttempts (fail_once s) = reconnectAttempts s + 1"
    and "maxReconnectAttempts (fail_once s) = maxReconnectAttempts s"
    and "current_socket (fail_once s) = Some (k\<lparr>readyState := CONNECTING\<rparr>)"
    and "live (fail_once s)"
    and "status_calls (fail_once s) = status_calls s @ notify (onConnectionChange k) False"
    and "timers (fail_once s) =
           timers s @ [\<lparr>delay = 3000 * reconnectAttempts s, timer_onMessage = onMessage k,
                        timer_onConnectionChange = onConnectionChange k, fired = True\<rparr>]"
  using assms
  by (auto simp: live_def current_socket_def close_current_def ws_onclose_def Let_def fail_once_def
        reconnect_timeout_def connectWebSocket_def nth_append
           split: option.splits if_splits)

lemma open_current_fields:
  assumes "current_socket s = Some k" and "readyState k = CONNECTING"
  shows "reconnectAttempts (open_current s) = 0"
    and "maxReconnectAttempts (open_current s) = maxReconnectAttempts s"
    and "wsConnected (open_current s) = True"
    and "current_socket (open_current s) = Some (k\<lparr>readyState := OPEN\<rparr>)"
    and "live (open_current s)"
    and "timers (open_current s) = timers s"
    and "status_calls (open_current s) = status_calls s @ notify (onConnectionChange k) True"
  using assms
  by (auto simp: open_current_def current_socket_def ws_onopen_def live_def
           split: option.splits if_splits)

lemma fail_chain:
  assumes "live s" and "current_socket s = Some k"
    and "reconnectAttempts s + n \<le> maxReconnectAttempts s"
  shows "live ((fail_once ^^ n) s) \<and>
         reconnectAttempts ((fail_once ^^ n) s) = reconnectAttempts s + n \<and>
         maxReconnectAttempts ((fail_once ^^ n) s) = maxReconnectAttempts s \<and>
         current_socket ((fail_once ^^ n) s) = Some (if n = 0 then k else k\<lparr>readyState := CONNECTING\<rparr>) \<and>
         map delay (timers ((fail_once ^^ n) s)) =
           map delay (timers s) @ map (\<lambda>j. 3000 * (reconnectAttempts s + j)) [0..<n] \<and>
         status_calls ((fail_once ^^ n) s) =
           status_calls s @ concat (replicate n (notify (onConnectionChange k) False))"
  using assms
proof (induction n)
  case 0
  then show ?case by simp
next
  case (Suc n)
  let ?t = "(fail_once ^^ n) s"
  let ?k = "if n = 0 then k else k\<lparr>readyState := CONNECTING\<rparr>"
  from Suc have ih:
    "live ?t" "reconnectAttempts ?t = reconnectAttempts s + n"
    "maxReconnectAttempts ?t = maxReconnectAttempts s"
    "current_socket ?t = Some ?k"
    "map delay (timers ?t) =
           map delay (timers s) @ map (\<lambda>j. 3000 * (reconnectAttempts s + j)) [0..<n]"
    "status_calls ?t = status_calls s @ concat (replicate n (notify (onConnectionChange k) False))"
    by simp_all
  from Suc.prems ih have lt: "reconnectAttempts ?t < maxReconnectAttempts ?t" by simp
  note f = fail_once_fields [OF ih(1) ih(4) lt]
  have cb: "onConnectionChange ?k = onConnectionChange k" by simp
  have rep: "concat (replicate n (notify (onConnectionChange k) False)) @ notify (onConnectionChange k) False
             = concat (replicate (Suc n) (notify (onConnectionChange k) False))"
    by (induction n) simp_all
  show ?case
    using f ih cb rep by (simp del: replicate_Suc replicate.simps)
qed

lemma map_delay_fired: "map delay (ts[k := (ts ! k)\<lparr>fired := True\<rparr>]) = map delay ts"
  by (cases "k < length ts") (simp_all add: map_update list_update_same_conv list_update_beyond)

lemma step_gave_up:
  assumes "maxReconnectAttempts s \<le> reconnectAttempts s" and "\<not> is_open ev"
  shows "maxReconnectAttempts (step ev s) \<le> reconnectAttempts (step ev s) \<and>
         map delay (timers (step ev s)) = map delay (timers s)"
  using assms
  by (cases ev)
     (auto simp: connectWebSocket_def disconnectWebSocket_def ws_onmessage_def ws_onclose_def
        reconnect_timeout_def map_delay_fired Let_def split: option.splits)

lemma run_gave_up:
  assumes "maxReconnectAttempts s \<le> reconnectAttempts s" and "\<forall>ev \<in> set evs. \<not> is_open ev"
  shows "maxReconnectAttempts (run evs s) \<le> reconnectAttempts (run evs s) \<and>
         map delay (timers (run evs s)) = map delay (timers s)"
  using assms
proof (induction evs arbitrary: s)
  case Nil
  then show ?case by simp
next
  case (Cons ev evs)
  from Cons.prems have a: "maxReconnectAttempts (step ev s) \<le> reconnectAttempts (step ev s)"
    and b: "map delay (timers (step ev s)) = map delay (timers s)"
    using step_gave_up [of s ev] by simp_all
  from Cons.IH [OF a] Cons.prems b show ?case by simp
qed

lemma close_gave_up:
  assumes "maxReconnectAttempts s \<le> reconnectAttempts s"
  shows "timers (step (SocketCloses i) s) = timers s"
    and "reconnectAttempts (step (SocketCloses i) s) = reconnectAttempts s"
  using assms by (simp_all add: ws_onclose_def Let_def)

lemma sample_live_facts:
  "live sample_live" "current_socket sample_live =
      Some \<lparr>readyState = CONNECTING, onMessage = Some 0, onConnectionChange = Some 1\<rparr>"
  "reconnectAttempts sample_live = 0" "maxReconnectAttempts sample_live = 5"
  "timers sample_live = []" "status_calls sample_live = []"
  by (simp_all add: sample_live_def connectWebSocket_def new_service_def live_def current_socket_def)

lemma sample_open_facts:
  "live sample_open" "current_socket sample_open =
      Some \<lparr>readyState = OPEN, onMessage = Some 0, onConnectionChange = Some 1\<rparr>"
  "reconnectAttempts sample_open = 0" "maxReconnectAttempts sample_open = 5"
  "timers sample_open = []" "status_calls sample_open = [(1, True)]"
  unfolding sample_open_def
  using open_current_fields [OF sample_live_facts(2)] sample_live_facts
  by (simp_all add: notify_def)

lemma five_failures:
  "live ((fail_once ^^ 5) sample_live)"
  "reconnectAttempts ((fail_once ^^ 5) sample_live) = 5"
  "maxReconnectAttempts ((fail_once ^^ 5) sample_live) = 5"
  "current_socket ((fail_once ^^ 5) sample_live) =
     Some \<lparr>readyState = CONNECTING, onMessage = Some 0, onConnectionChange = Some 1\<rparr>"
  "map delay (timers ((fail_once ^^ 5) sample_live)) = [0, 3000, 6000, 9000, 12000]"
  using fail_chain [OF sample_live_facts(1) sample_live_facts(2), of 5] sample_live_facts
  by (simp_all add: upt_rec)

text \<open>
  Counterexample to C4. A connection is made on a fresh service, opens and then closes. The
  timer set by that close, which is the first reconnect, has delay 0 and not 3000: the
  counter is still 0 when \<^verbatim>\<open>3000 * this.reconnectAttempts\<close> is computed.
\<close>

theorem first_reconnect_delay_counterexample:
  "map delay (timers (close_current sample_open)) = [0]
   \<and> map delay (timers (close_current sample_open)) \<noteq> [1 * 3000]"
  using close_current_fields(9) [OF sample_open_facts(1) sample_open_facts(2)] sample_open_facts
  by simp

text \<open>
  C4, amended. Start from a service whose counter is 0, whose cap is 5 and whose current
  socket, not yet closed, holds the status callback \<open>cb\<close>. For every \<open>n\<close> from 1 to 5,
  after \<open>n - 1\<close> failed attempts the next close of the current socket calls \<open>cb\<close> with
  \<open>False\<close> (disconnected), clears the connected flag, and sets the timer of the \<open>n\<close>-th
  reconnect with a delay of \<open>3000 * (n - 1)\<close> ms: 0, 3, 6, 9 and 12 seconds.
\<close>

theorem reconnect_delay_linear:
  assumes "live s" and "current_socket s = Some k" and "onConnectionChange k = Some cb"
    and "reconnectAttempts s = 0" and "maxReconnectAttempts s = 5"
    and "1 \<le> n" and "n \<le> 5"
  shows "map delay (timers (close_current ((fail_once ^^ (n - 1)) s)))
           = map delay (timers ((fail_once ^^ (n - 1)) s)) @ [3000 * (n - 1)]
       \<and> status_calls (close_current ((fail_once ^^ (n - 1)) s))
           = status_calls ((fail_once ^^ (n - 1)) s) @ [(cb, False)]
       \<and> \<not> wsConnected (close_current ((fail_once ^^ (n - 1)) s))"
proof -
  let ?t = "(fail_once ^^ (n - 1)) s"
  let ?k = "if n - 1 = 0 then k else k\<lparr>readyState := CONNECTING\<rparr>"
  from assms have le: "reconnectAttempts s + (n - 1) \<le> maxReconnectAttempts s" by simp
  from fail_chain [OF assms(1) assms(2) le]
  have t: "live ?t" "reconnectAttempts ?t = n - 1" "maxReconnectAttempts ?t = 5"
    "current_socket ?t = Some ?k"
    using assms by simp_all
  have cb: "onConnectionChange ?k = Some cb" using assms(3) by simp
  have lt: "reconnectAttempts ?t < maxReconnectAttempts ?t" using t assms by simp
  show ?thesis
    using close_current_fields(3,8,9) [OF t(1) t(4)] lt t(2) cb
    by (simp add: notify_def)
qed

theorem reconnect_delay_linear_witness:
  "map delay (timers (close_current (fail_once sample_open)))
     = map delay (timers (fail_once sample_open)) @ [3000]
   \<and> status_calls (close_current (fail_once sample_open))
       = status_calls (fail_once sample_open) @ [(1, False)]
   \<and> \<not> wsConnected (close_current (fail_once sample_open))"
  using reconnect_delay_linear [OF sample_open_facts(1) sample_open_facts(2), of 1 2]
        sample_open_facts
  by simp

text \<open>
  C5. From a service with counter 0 and cap 5 whose current socket is not closed, five
  failed attempts in a row bring the counter to 5 and set five timers, and the close that
  follows sets none. From any service whose counter has reached the cap, whatever events
  follow, as long as no socket opens (calls of \<open>connectWebSocket\<close> and
  \<open>disconnectWebSocket\<close>, frames, errors, closes, pending timers), no timer is set: the
  delays of the timers stay as they are, every close event leaves the timers unchanged,
  and the counter stays at or above the cap. A close in that state only clears the flag
  and calls the status callback.
\<close>

theorem gives_up_after_max:
  "(live s \<and> reconnectAttempts s = 0 \<and> maxReconnectAttempts s = 5 \<longrightarrow>
      reconnectAttempts ((fail_once ^^ 5) s) = 5 \<and>
      length (timers ((fail_once ^^ 5) s)) = length (timers s) + 5 \<and>
      timers (close_current ((fail_once ^^ 5) s)) = timers ((fail_once ^^ 5) s))
   \<and> (maxReconnectAttempts s \<le> reconnectAttempts s \<and> (\<forall>ev \<in> set evs. \<not> is_open ev) \<longrightarrow>
        map delay (timers (run evs s)) = map delay (timers s) \<and>
        timers (step (SocketCloses i) (run evs s)) = timers (run evs s) \<and>
        maxReconnectAttempts (run evs s) \<le> reconnectAttempts (run evs s))"
proof (intro conjI impI)
  assume a: "live s \<and> reconnectAttempts s = 0 \<and> maxReconnectAttempts s = 5"
  then obtain k where k: "current_socket s = Some k" by (auto simp: live_iff)
  from a have le: "reconnectAttempts s + 5 \<le> maxReconnectAttempts s" by simp
  let ?t = "(fail_once ^^ 5) s"
  from fail_chain [OF _ k le] a
  have t: "live ?t" "reconnectAttempts ?t = 5" "maxReconnectAttempts ?t = 5"
    "current_socket ?t = Some (k\<lparr>readyState := CONNECTING\<rparr>)"
    "map delay (timers ?t) = map delay (timers s) @ map (\<lambda>j. 3000 * (reconnectAttempts s + j)) [0..<5]"
    by simp_all
  show "reconnectAttempts ?t = 5" by (rule t(2))
  from t(5) have "length (map delay (timers ?t)) = length (map delay (timers s)) + 5"
    by (simp del: map_append upt_Suc)
  then show "length (timers ?t) = length (timers s) + 5" by simp
  show "timers (close_current ?t) = timers ?t"
    using close_current_fields(9) [OF t(1) t(4)] t(2,3) by simp
next
  assume b: "maxReconnectAttempts s \<le> reconnectAttempts s \<and> (\<forall>ev \<in> set evs. \<not> is_open ev)"
  then have r: "maxReconnectAttempts (run evs s) \<le> reconnectAttempts (run evs s)"
    "map delay (timers (run evs s)) = map delay (timers s)"
    using run_gave_up [of s evs] by simp_all
  show "map delay (timers (run evs s)) = map delay (timers s)" by (rule r(2))
  show "timers (step (SocketCloses i) (run evs s)) = timers (run evs s)"
    by (rule close_gave_up(1) [OF r(1)])
  show "maxReconnectAttempts (run evs s) \<le> reconnectAttempts (run evs s)" by (rule r(1))
qed

theorem gives_up_after_max_witness:
  "reconnectAttempts ((fail_once ^^ 5) sample_live) = 5
   \<and> timers (close_current ((fail_once ^^ 5) sample_live)) = timers ((fail_once ^^ 5) sample_live)
   \<and> map delay (timers (run [CallConnect (Some 0) (Some 1) True, SocketCloses 6, CallDisconnect,
                              TimerFires 4 True, SocketErrors 0]
                          (close_current ((fail_once ^^ 5) sample_live))))
       = [0, 3000, 6000, 9000, 12000]"
proof -
  let ?evs = "[CallConnect (Some 0) (Some 1) True, SocketCloses 6, CallDisconnect,
               TimerFires 4 True, SocketErrors 0]"
  let ?s = "close_current ((fail_once ^^ 5) sample_live)"
  have start: "live sample_live \<and> reconnectAttempts sample_live = 0 \<and>
               maxReconnectAttempts sample_live = 5"
    using sample_live_facts by simp
  have c: "reconnectAttempts ?s = 5" "maxReconnectAttempts ?s = 5"
    "timers ?s = timers ((fail_once ^^ 5) sample_live)"
    using close_current_fields(1,2,9) [OF five_failures(1) five_failures(4)] five_failures
    by simp_all
  have up: "maxReconnectAttempts ?s \<le> reconnectAttempts ?s \<and> (\<forall>ev \<in> set ?evs. \<not> is_open ev)"
    using c by simp
  from gives_up_after_max [of sample_live ?evs 0] start
  have one: "reconnectAttempts ((fail_once ^^ 5) sample_live) = 5"
    "timers ?s = timers ((fail_once ^^ 5) sample_live)"
    by blast+
  from gives_up_after_max [of ?s ?evs 0] up
  have "map delay (timers (run ?evs ?s)) = map delay (timers ?s)" by blast
  with c five_failures(5) one show ?thesis by simp
qed

text \<open>
  C10. When the current socket, still connecting, opens, the counter becomes 0 whatever it
  was and the connected flag is set; with the cap at 5, five failed attempts in a row after
  that open each set a reconnect timer (delays 0, 3000, 6000, 9000, 12000 ms) and bring
  the counter to 5 again.
\<close>

theorem open_resets_attempts:
  assumes "current_socket s = Some k" and "readyState k = CONNECTING"
    and "maxReconnectAttempts s = 5"
  shows "reconnectAttempts (open_current s) = 0
       \<and> wsConnected (open_current s)
       \<and> reconnectAttempts ((fail_once ^^ 5) (open_current s)) = 5
       \<and> map delay (timers ((fail_once ^^ 5) (open_current s)))
           = map delay (timers s) @ [0, 3000, 6000, 9000, 12000]"
proof -
  note o = open_current_fields [OF assms(1) assms(2)]
  have le: "reconnectAttempts (open_current s) + 5 \<le> maxReconnectAttempts (open_current s)"
    using o assms(3) by simp
  from fail_chain [OF o(5) o(4) le]
  have "reconnectAttempts ((fail_once ^^ 5) (open_current s)) = 5"
    and "map delay (timers ((fail_once ^^ 5) (open_current s)))
           = map delay (timers s) @ [0, 3000, 6000, 9000, 12000]"
    using o by (simp_all add: upt_rec)
  with o show ?thesis by simp
qed

theorem open_resets_attempts_witness:
  "reconnectAttempts ((fail_once ^^ 5) sample_live) = 5
   \<and> reconnectAttempts (open_current ((fail_once ^^ 5) sample_live)) = 0
   \<and> reconnectAttempts ((fail_once ^^ 5) (open_current ((fail_once ^^ 5) sample_live))) = 5
   \<and> map delay (timers ((fail_once ^^ 5) (open_current ((fail_once ^^ 5) sample_live))))
       = [0, 3000, 6000, 9000, 12000, 0, 3000, 6000, 9000, 12000]"
  using open_resets_attempts [OF five_failures(4) _ five_failures(3)] five_failures
  by simp


section \<open>Disconnecting\<close>

lemma disconnect_keeps_attempts:
  "reconnectAttempts (disconnectWebSocket s) = reconnectAttempts s"
  by (simp add: disconnectWebSocket_def split: option.splits)

text \<open>
  Counterexample to C7. After three failed attempts on a sample connection the service
  holds a socket and its counter is 3; after \<open>disconnectWebSocket\<close> the counter is still
  3, not 0.
\<close>

theorem disconnect_keeps_counter_counterexample:
  "ws ((fail_once ^^ 3) sample_live) \<noteq> None
   \<and> reconnectAttempts ((fail_once ^^ 3) sample_live) = 3
   \<and> reconnectAttempts (disconnectWebSocket ((fail_once ^^ 3) sample_live)) = 3"
proof -
  from fail_chain [OF sample_live_facts(1) sample_live_facts(2), of 3] sample_live_facts
  have t: "live ((fail_once ^^ 3) sample_live)" "reconnectAttempts ((fail_once ^^ 3) sample_live) = 3"
    by simp_all
  from t(1) have "ws ((fail_once ^^ 3) sample_live) \<noteq> None"
    by (auto simp: live_def split: option.splits)
  with t(2) show ?thesis by (simp add: disconnect_keeps_attempts)
qed

text \<open>
  C7, amended. When the service holds a socket, \<open>disconnectWebSocket\<close> calls its
  \<open>close()\<close>, releases the handle and clears the connected flag; the reconnect counter
  is left as it is. When it holds none, the service is unchanged.
\<close>

theorem disconnect_releases_socket:
  "(ws s = Some i \<longrightarrow>
      ws (disconnectWebSocket s) = None \<and>
      \<not> wsConnected (disconnectWebSocket s) \<and>
      reconnectAttempts (disconnectWebSocket s) = reconnectAttempts s \<and>
      (i < length (sockets s) \<longrightarrow>
         sockets (disconnectWebSocket s) ! i = close_socket (sockets s ! i)))
   \<and> (ws s = None \<longrightarrow> disconnectWebSocket s = s)"
  by (simp add: disconnectWebSocket_def)

theorem disconnect_releases_socket_witness:
  "ws sample_open = Some 0
   \<and> wsConnected sample_open
   \<and> ws (disconnectWebSocket sample_open) = None
   \<and> \<not> wsConnected (disconnectWebSocket sample_open)
   \<and> readyState (sockets (disconnectWebSocket sample_open) ! 0) = CLOSING
   \<and> disconnectWebSocket new_service = new_service"
proof -
  have a: "ws sample_open = Some 0" "wsConnected sample_open" "0 < length (sockets sample_open)"
    "readyState (sockets sample_open ! 0) = OPEN"
    by (simp_all add: sample_open_def open_current_def sample_live_def connectWebSocket_def
          new_service_def ws_onopen_def)
  have b: "ws new_service = None" by (simp add: new_service_def)
  show ?thesis
    using disconnect_releases_socket [of sample_open 0] disconnect_releases_socket [of new_service 0]
          a b
    by (simp add: close_socket_def)
qed


section \<open>Live updates on the dashboard\<close>

lemma status_callback_disconnected:
  "mounted d \<Longrightarrow> connectionStatus (dashboard_onConnectionChange False d) = ''disconnected''"
  by (simp add: dashboard_onConnectionChange_def)

lemma sample_after_cleanup_socket:
  "1 < length (sockets sample_after_cleanup)"
  "readyState (sockets sample_after_cleanup ! 1) = OPEN"
  "onMessage (sockets sample_after_cleanup ! 1) = Some 0"
  by (simp_all add: sample_after_cleanup_def sample_open_def open_current_def sample_live_def
        connectWebSocket_def new_service_def ws_onopen_def disconnectWebSocket_def
        close_socket_def ws_onclose_def reconnect_timeout_def Let_def notify_def)

lemma sample_open_socket:
  "0 < length (sockets sample_open)"
  "readyState (sockets sample_open ! 0) = OPEN"
  "onMessage (sockets sample_open ! 0) = Some 0"
  by (simp_all add: sample_open_def open_current_def sample_live_def connectWebSocket_def
        new_service_def ws_onopen_def)

text \<open>
  Counterexample to C8. The dashboard connects with its closures (named 0 and 1), the socket
  opens, and the dashboard unmounts: its cleanup clears \<open>mounted\<close> and calls
  \<open>disconnectWebSocket\<close>. The close of the socket sets a reconnect timer, the timer
  connects with the same closures and the new socket opens. A \<open>trending_update\<close> frame
  with two tracks arrives on it and is dispatched to the dashboard's closure, which
  returns at once: the track list is the old one, not the list of the message.
\<close>

theorem live_update_unmounted_counterexample:
  "get_prop sample_update ''type'' = JStr ''trending_update''
   \<and> get_prop sample_update ''data''
       = JArr [JObj [(''track_id'', JStr ''a'')], JObj [(''track_id'', JStr ''b'')]]
   \<and> dispatched (onMessage (sockets sample_after_cleanup ! 1)) (Inr sample_update)
       = Some (0, sample_update)
   \<and> get_prop (trendingData (deliver 0 ''2024-01-01T00:00:00.000Z'' 1 (Inr sample_update)
                                sample_after_cleanup sample_unmounted)) ''tracks''
       = JArr [JObj [(''track_id'', JStr ''old'')]]"
  using sample_after_cleanup_socket
  by (simp add: deliver_def dispatched_def dashboard_onMessage_def sample_update_def
        sample_unmounted_def)

text \<open>
  C8, amended. A parsed frame arrives on an open socket whose handlers hold the dashboard's
  closure. While the dashboard is mounted, a frame whose \<open>type\<close> is \<open>trending_update\<close>
  and whose \<open>data\<close> is a list makes the \<open>tracks\<close> of \<open>trendingData\<close> exactly that list,
  element for element (for \<open>[t1, t2]\<close>, exactly \<open>[t1, t2]\<close>). A frame whose \<open>type\<close> is
  anything else leaves \<open>trendingData\<close> as it is, and once the dashboard has unmounted
  every frame leaves its state as it is.
\<close>

theorem live_update_replaces_tracks:
  assumes "i < length (sockets s)" and "readyState (sockets s ! i) = OPEN"
    and "onMessage (sockets s ! i) = Some cb"
  shows "(mounted d \<and> get_prop msg ''type'' = JStr ''trending_update'' \<and>
          get_prop msg ''data'' = JArr ts \<longrightarrow>
            get_prop (trendingData (deliver cb stamp i (Inr msg) s d)) ''tracks'' = JArr ts)
       \<and> (get_prop msg ''type'' \<noteq> JStr ''trending_update'' \<longrightarrow>
            trendingData (deliver cb stamp i (Inr msg) s d) = trendingData d)
       \<and> (\<not> mounted d \<longrightarrow> deliver cb stamp i (Inr msg) s d = d)"
proof (intro conjI impI)
  assume a: "mounted d \<and> get_prop msg ''type'' = JStr ''trending_update'' \<and>
    get_prop msg ''data'' = JArr ts"
  then have nn: "\<not> nullish msg" by (cases msg) auto
  show "get_prop (trendingData (deliver cb stamp i (Inr msg) s d)) ''tracks'' = JArr ts"
    using a nn assms
    by (simp add: deliver_def dispatched_def dashboard_onMessage_def update_conv')
next
  assume "get_prop msg ''type'' \<noteq> JStr ''trending_update''"
  then show "trendingData (deliver cb stamp i (Inr msg) s d) = trendingData d"
    by (simp add: deliver_def dispatched_def dashboard_onMessage_def split: option.splits)
next
  assume "\<not> mounted d"
  then show "deliver cb stamp i (Inr msg) s d = d"
    by (simp add: deliver_def dispatched_def dashboard_onMessage_def split: option.splits)
qed

theorem live_update_replaces_tracks_witness:
  "get_prop (trendingData (deliver 0 ''2024-01-01T00:00:00.000Z'' 0 (Inr sample_update)
                             sample_open sample_dashboard)) ''tracks''
     = JArr [JObj [(''track_id'', JStr ''a'')], JObj [(''track_id'', JStr ''b'')]]
   \<and> trendingData (deliver 0 ''2024-01-01T00:00:00.000Z'' 0 (Inr sample_heartbeat)
                     sample_open sample_dashboard)
       = JNull
   \<and> deliver 0 ''2024-01-01T00:00:00.000Z'' 1 (Inr sample_update)
        sample_after_cleanup sample_unmounted
       = sample_unmounted"
proof -
  have u: "mounted sample_dashboard \<and> get_prop sample_update ''type'' = JStr ''trending_update'' \<and>
           get_prop sample_update ''data''
             = JArr [JObj [(''track_id'', JStr ''a'')], JObj [(''track_id'', JStr ''b'')]]"
    by (simp add: sample_dashboard_def sample_update_def)
  have h: "get_prop sample_heartbeat ''type'' \<noteq> JStr ''trending_update''"
    by (simp add: sample_heartbeat_def)
  have n: "trendingData sample_dashboard = JNull" by (simp add: sample_dashboard_def)
  have g: "\<not> mounted sample_unmounted" by (simp add: sample_unmounted_def)
  note A = live_update_replaces_tracks [OF sample_open_socket,
             where d = sample_dashboard and stamp = "''2024-01-01T00:00:00.000Z''"]
  note B = live_update_replaces_tracks [OF sample_after_cleanup_socket,
             where d = sample_unmounted and stamp = "''2024-01-01T00:00:00.000Z''"
               and msg = sample_update]
  have c1: "get_prop (trendingData (deliver 0 ''2024-01-01T00:00:00.000Z'' 0 (Inr sample_update)
                             sample_open sample_dashboard)) ''tracks''
     = JArr [JObj [(''track_id'', JStr ''a'')], JObj [(''track_id'', JStr ''b'')]]"
    using A [where msg = sample_update] u by blast
  have c2: "trendingData (deliver 0 ''2024-01-01T00:00:00.000Z'' 0 (Inr sample_heartbeat)
                     sample_open sample_dashboard) = JNull"
    using A [where msg = sample_heartbeat] h n by simp
  have c3: "deliver 0 ''2024-01-01T00:00:00.000Z'' 1 (Inr sample_update)
        sample_after_cleanup sample_unmounted = sample_unmounted"
    using B g by blast
  from c1 c2 c3 show ?thesis by blast
qed

end
